theory Spec2Isabelle
  imports Complex_Main "HOL-Library.Word" "HOL-Library.Char_ord" "HOL-Library.List_Lexorder"
begin

section \<open>Python values\<close>

text \<open>
  The handlers of \<^verbatim>\<open>handler.py\<close> work on decoded JSON: request bodies, table items and
  decoded model output are dictionaries, lists, strings and numbers. A float is modelled
  by the real number it denotes; a \<^verbatim>\<open>str\<close> is a list of characters with code points below
  256; a dictionary is an association list with distinct keys, read with \<^const>\<open>map_of\<close>.
\<close>

datatype pyval = PNone | PBool bool | PInt int | PFloat real | PStr string
  | PList "pyval list" | PDict "(string \<times> pyval) list"

type_synonym dict = "(string \<times> pyval) list"

type_synonym bytes = "8 word list"

datatype exn = KeyError | TypeError | AttributeError | JSONDecodeError | UnicodeDecodeError
  | UpstreamError | StorageError | LibraryError

text \<open>Sequencing of computations that may raise.\<close>

definition bind_exn :: "exn + 'a \<Rightarrow> ('a \<Rightarrow> exn + 'b) \<Rightarrow> exn + 'b" where
  "bind_exn m f = (case m of Inl e \<Rightarrow> Inl e | Inr v \<Rightarrow> f v)"

text \<open>Truth value of an object, as \<^verbatim>\<open>not x\<close> and \<^verbatim>\<open>x or y\<close> test it.\<close>

fun truthy :: "pyval \<Rightarrow> bool" where
  "truthy PNone = False"
| "truthy (PBool b) = b"
| "truthy (PInt i) = (i \<noteq> 0)"
| "truthy (PFloat r) = (r \<noteq> 0)"
| "truthy (PStr s) = (s \<noteq> [])"
| "truthy (PList xs) = (xs \<noteq> [])"
| "truthy (PDict d) = (d \<noteq> [])"

definition py_or :: "pyval \<Rightarrow> pyval \<Rightarrow> pyval" where
  "py_or a b = (if truthy a then a else b)"

text \<open>The number a value compares as: \<^verbatim>\<open>True == 1\<close> and \<^verbatim>\<open>1 == 1.0\<close> hold in Python.\<close>

fun py_num :: "pyval \<Rightarrow> real option" where
  "py_num (PBool b) = Some (if b then 1 else 0)"
| "py_num (PInt i) = Some (of_int i)"
| "py_num (PFloat r) = Some r"
| "py_num _ = None"

text \<open>Python's \<^verbatim>\<open>==\<close> on decoded JSON.\<close>

fun py_eq :: "pyval \<Rightarrow> pyval \<Rightarrow> bool"
  and py_eq_list :: "pyval list \<Rightarrow> pyval list \<Rightarrow> bool"
  and py_eq_at :: "pyval \<Rightarrow> string \<Rightarrow> dict \<Rightarrow> bool"
  and py_eq_sub :: "dict \<Rightarrow> dict \<Rightarrow> bool"
where
  "py_eq PNone b = (b = PNone)"
| "py_eq (PStr s) b = (b = PStr s)"
| "py_eq (PBool x) b = (py_num b = Some (if x then 1 else 0))"
| "py_eq (PInt i) b = (py_num b = Some (of_int i))"
| "py_eq (PFloat r) b = (py_num b = Some r)"
| "py_eq (PList xs) b = (case b of PList ys \<Rightarrow> py_eq_list xs ys | _ \<Rightarrow> False)"
| "py_eq (PDict xs) b =
     (case b of PDict ys \<Rightarrow> length xs = length ys \<and> py_eq_sub xs ys | _ \<Rightarrow> False)"
| "py_eq_list [] ys = (ys = [])"
| "py_eq_list (x # xs) ys =
     (case ys of [] \<Rightarrow> False | y # ys' \<Rightarrow> py_eq x y \<and> py_eq_list xs ys')"
| "py_eq_at v k [] = False"
| "py_eq_at v k (kw # ys) = (if k = fst kw then py_eq v (snd kw) else py_eq_at v k ys)"
| "py_eq_sub [] ys = True"
| "py_eq_sub (kv # xs) ys = (py_eq_at (snd kv) (fst kv) ys \<and> py_eq_sub xs ys)"

text \<open>\<^verbatim>\<open>obj.get(key, default)\<close>: only a dictionary has the method.\<close>

definition dict_get :: "pyval \<Rightarrow> string \<Rightarrow> pyval \<Rightarrow> exn + pyval" where
  "dict_get obj k dflt =
     (case obj of
        PDict d \<Rightarrow> Inr (case map_of d k of None \<Rightarrow> dflt | Some v \<Rightarrow> v)
      | _ \<Rightarrow> Inl AttributeError)"

text \<open>\<^verbatim>\<open>obj['key']\<close> with a string key.\<close>

definition subscript :: "pyval \<Rightarrow> string \<Rightarrow> exn + pyval" where
  "subscript obj k =
     (case obj of
        PDict d \<Rightarrow> (case map_of d k of None \<Rightarrow> Inl KeyError | Some v \<Rightarrow> Inr v)
      | _ \<Rightarrow> Inl TypeError)"

text \<open>The same two reads on a table item, which is always a dictionary.\<close>

definition item_get :: "dict \<Rightarrow> string \<Rightarrow> pyval \<Rightarrow> pyval" where
  "item_get d k dflt = (case map_of d k of None \<Rightarrow> dflt | Some v \<Rightarrow> v)"

definition item_sub :: "dict \<Rightarrow> string \<Rightarrow> exn + pyval" where
  "item_sub d k = (case map_of d k of None \<Rightarrow> Inl KeyError | Some v \<Rightarrow> Inr v)"

text \<open>\<^verbatim>\<open>len(x)\<close> and the elements a \<^verbatim>\<open>for\<close> loop over \<^verbatim>\<open>x\<close> visits.\<close>

definition py_len :: "pyval \<Rightarrow> exn + nat" where
  "py_len x =
     (case x of PStr s \<Rightarrow> Inr (length s) | PList xs \<Rightarrow> Inr (length xs)
      | PDict d \<Rightarrow> Inr (length d) | _ \<Rightarrow> Inl TypeError)"

definition py_iter :: "pyval \<Rightarrow> exn + pyval list" where
  "py_iter x =
     (case x of PStr s \<Rightarrow> Inr (map (\<lambda>c. PStr [c]) s) | PList xs \<Rightarrow> Inr xs
      | PDict d \<Rightarrow> Inr (map (\<lambda>kv. PStr (fst kv)) d) | _ \<Rightarrow> Inl TypeError)"

text \<open>\<^verbatim>\<open>xs[:n]\<close>: a negative bound counts from the end.\<close>

definition py_slice_to :: "int \<Rightarrow> 'a list \<Rightarrow> 'a list" where
  "py_slice_to n xs = (if 0 \<le> n then take (nat n) xs else take (length xs - nat (- n)) xs)"

text \<open>\<^verbatim>\<open>x[:n]\<close> on an object, with \<^verbatim>\<open>n\<close> a non-negative literal of the source.\<close>

definition slice_prefix :: "nat \<Rightarrow> pyval \<Rightarrow> exn + pyval" where
  "slice_prefix n x =
     (case x of PStr s \<Rightarrow> Inr (PStr (take n s)) | PList xs \<Rightarrow> Inr (PList (take n xs))
      | _ \<Rightarrow> Inl TypeError)"

text \<open>\<^verbatim>\<open>str(idx)\<close> for the non-negative indices that \<^verbatim>\<open>enumerate\<close> produces.\<close>

definition digit_char :: "nat \<Rightarrow> char" where
  "digit_char d = ''0123456789'' ! d"

function str_nat :: "nat \<Rightarrow> string" where
  "str_nat n = (if n < 10 then [digit_char n] else str_nat (n div 10) @ [digit_char (n mod 10)])"
  by pat_completeness auto
termination
  by (relation "measure id") auto

declare str_nat.simps [simp del]

section \<open>Strings\<close>

text \<open>Whitespace that \<^verbatim>\<open>str.strip()\<close> removes, among the code points below 256.\<close>

definition py_isspace :: "char \<Rightarrow> bool" where
  "py_isspace c =
     (let n = (of_char c :: nat)
      in (9 \<le> n \<and> n \<le> 13) \<or> (28 \<le> n \<and> n \<le> 32) \<or> n = 133 \<or> n = 160)"

definition lstrip :: "string \<Rightarrow> string" where
  "lstrip s = dropWhile py_isspace s"

definition rstrip :: "string \<Rightarrow> string" where
  "rstrip s = rev (dropWhile py_isspace (rev s))"

definition strip :: "string \<Rightarrow> string" where
  "strip s = rstrip (lstrip s)"

definition startswith :: "string \<Rightarrow> string \<Rightarrow> bool" where
  "startswith s p = (take (length p) s = p)"

definition endswith :: "string \<Rightarrow> string \<Rightarrow> bool" where
  "endswith s p = (length p \<le> length s \<and> drop (length s - length p) s = p)"

text \<open>\<^verbatim>\<open>str.lower()\<close>: the ASCII capitals and the capitals of the Latin-1 block.\<close>

definition lower_char :: "char \<Rightarrow> char" where
  "lower_char c =
     (let n = (of_char c :: nat)
      in if (65 \<le> n \<and> n \<le> 90) \<or> (192 \<le> n \<and> n \<le> 222 \<and> n \<noteq> 215)
         then char_of (n + 32) else c)"

definition lower :: "string \<Rightarrow> string" where
  "lower s = map lower_char s"

text \<open>\<^verbatim>\<open>s.split('.')[-1]\<close>: what follows the last dot, or all of \<^verbatim>\<open>s\<close> without one.\<close>

definition last_dot_part :: "string \<Rightarrow> string" where
  "last_dot_part s = rev (takeWhile (\<lambda>c. c \<noteq> CHR ''.'') (rev s))"

text \<open>\<^verbatim>\<open>'\n'.join(parts)\<close>.\<close>

fun join_nl :: "string list \<Rightarrow> string" where
  "join_nl [] = []"
| "join_nl [x] = x"
| "join_nl (x # y # ys) = x @ [CHR 0x0A] @ join_nl (y # ys)"

section \<open>External collaborators\<close>

text \<open>
  The prompt templates are opaque text; a prompt is kept as the template chosen and the
  arguments substituted into it, in this order: content and language for a summary;
  content, num_cards and language for flashcards; content, num_questions, language and
  difficulty for a quiz; document_content, question and language for a chat turn; the
  level preset, text and language for an explanation.
\<close>

datatype level = Eli5 | Beginner | Intermediate | Expert

datatype prompt =
    SummarizePrompt pyval pyval
  | FlashcardsPrompt pyval pyval pyval
  | QuizPrompt pyval pyval pyval pyval
  | ChatPrompt pyval pyval pyval
  | ExplainPrompt level pyval pyval

text \<open>
  What a handler gets from outside during one invocation: the identifier and the
  timestamp it draws, the language model, the JSON decoder, the PDF and DOCX readers, the
  UTF-8 decoder, and the float arithmetic of the interpreter (a float being the real
  number it denotes, the rounded operations are parameters).
\<close>

record env =
  fresh_id :: string
  now :: string
  call_gpt :: "prompt \<Rightarrow> exn + string"
  json_loads :: "string \<Rightarrow> exn + pyval"
  pdf_reader :: "bytes \<Rightarrow> exn + (exn + string option) list"
  docx_paragraphs :: "bytes \<Rightarrow> exn + string list"
  utf8_decode :: "bytes \<Rightarrow> exn + string"
  truediv :: "int \<Rightarrow> int \<Rightarrow> real"
  float_mul :: "real \<Rightarrow> int \<Rightarrow> real"
  round_ndigits :: "real \<Rightarrow> int \<Rightarrow> real"

section \<open>Text extraction\<close>

text \<open>
  The loop of \<^verbatim>\<open>extract_text_from_pdf\<close>: \<^verbatim>\<open>acc\<close> is \<^verbatim>\<open>extracted_text\<close>; each page's \<^verbatim>\<open>extract_text()\<close> is evaluated when the loop reaches it.
\<close>

fun pdf_loop :: "(exn + string option) list \<Rightarrow> int \<Rightarrow> string list \<Rightarrow> int \<Rightarrow> exn + string list"
where
  "pdf_loop [] max_chars acc total_chars = Inr acc"
| "pdf_loop (p # ps) max_chars acc total_chars =
     (case p of
        Inl e \<Rightarrow> Inl e
      | Inr t \<Rightarrow>
          (let text = (case t of None \<Rightarrow> [] | Some s \<Rightarrow> s)
           in if total_chars + int (length text) > max_chars
              then Inr (acc @ [py_slice_to (max_chars - total_chars) text])
              else pdf_loop ps max_chars (acc @ [text]) (total_chars + int (length text))))"

definition extract_text_from_pdf :: "env \<Rightarrow> bytes \<Rightarrow> int \<Rightarrow> string" where
  "extract_text_from_pdf en pdf_content max_chars =
     (case pdf_reader en pdf_content of
        Inl e \<Rightarrow> []
      | Inr pages \<Rightarrow>
          (case pdf_loop pages max_chars [] 0 of
             Inl e \<Rightarrow> []
           | Inr extracted_text \<Rightarrow> join_nl extracted_text))"

definition truncate_text :: "string \<Rightarrow> int \<Rightarrow> string" where
  "truncate_text text max_chars =
     (if int (length text) > max_chars then py_slice_to max_chars text else text)"

definition extract_text_from_docx :: "env \<Rightarrow> bytes \<Rightarrow> int \<Rightarrow> string" where
  "extract_text_from_docx en file_content max_chars =
     (case docx_paragraphs en file_content of
        Inl e \<Rightarrow> []
      | Inr paras \<Rightarrow>
          truncate_text (join_nl (filter (\<lambda>t. strip t \<noteq> []) paras)) max_chars)"

definition extract_text_from_file :: "env \<Rightarrow> bytes \<Rightarrow> string \<Rightarrow> int \<Rightarrow> exn + string" where
  "extract_text_from_file en file_content file_name max_chars =
     (let ext = last_dot_part (lower file_name)
      in if ext = ''pdf'' then Inr (extract_text_from_pdf en file_content max_chars)
         else if ext \<in> set [''docx'', ''doc'']
           then Inr (extract_text_from_docx en file_content max_chars)
         else if ext \<in> set [''txt'', ''text'']
           then (case utf8_decode en file_content of
                   Inl e \<Rightarrow> Inl e
                 | Inr text \<Rightarrow> Inr (truncate_text text max_chars))
         else Inr [])"

section \<open>Model gateway\<close>

text \<open>
  The clean-up between the model call and \<^verbatim>\<open>json.loads\<close> in \<^verbatim>\<open>call_gpt_json\<close>: the
  string handed to the decoder.
\<close>

definition strip_code_fence :: "string \<Rightarrow> string" where
  "strip_code_fence raw =
     (let r1 = strip raw;
          r2 = (if startswith r1 ''```json'' then drop 7 r1
                else if startswith r1 ''```'' then drop 3 r1 else r1);
          r3 = (if endswith r2 ''```'' then take (length r2 - 3) r2 else r2)
      in strip r3)"

definition call_gpt_json :: "env \<Rightarrow> prompt \<Rightarrow> exn + pyval" where
  "call_gpt_json en p =
     (case call_gpt en p of
        Inl e \<Rightarrow> Inl e
      | Inr result \<Rightarrow> json_loads en (strip_code_fence result))"

section \<open>Requests, responses and the stores\<close>

text \<open>
  An API Gateway event, as far as the handlers read it: the authorizer's claims (empty
  when the request carries none), the path parameter, and the \<^verbatim>\<open>body\<close> entry
  (\<^const>\<open>None\<close> when the event has none).
\<close>

record event =
  ev_claims :: dict
  ev_path_id :: string
  ev_body :: "pyval option"

datatype response = Response nat pyval

fun status_code :: "response \<Rightarrow> nat" where
  "status_code (Response c b) = c"

fun response_body :: "response \<Rightarrow> pyval" where
  "response_body (Response c b) = b"

definition error_response :: "nat \<Rightarrow> string \<Rightarrow> response" where
  "error_response c msg = Response c (PDict [(''error'', PStr msg)])"

text \<open>
  \<^verbatim>\<open>str(e)\<close> of a caught exception. The wording of a Python error message is not modelled:
  the name of the exception class stands for it.
\<close>

fun exn_str :: "exn \<Rightarrow> string" where
  "exn_str KeyError = ''KeyError''"
| "exn_str TypeError = ''TypeError''"
| "exn_str AttributeError = ''AttributeError''"
| "exn_str JSONDecodeError = ''JSONDecodeError''"
| "exn_str UnicodeDecodeError = ''UnicodeDecodeError''"
| "exn_str UpstreamError = ''UpstreamError''"
| "exn_str StorageError = ''StorageError''"
| "exn_str LibraryError = ''LibraryError''"

text \<open>
  The tables and the bucket. A table is the list of its items; every item carries its
  primary key. Reads are taken to succeed, and so are the writes of items made of
  identifiers, timestamps, lengths, request fields and decoded model output, which the
  prompts ask to be strings and integer indices. The table resource of \<^verbatim>\<open>boto3\<close> does
  not serialise a Python \<^verbatim>\<open>float\<close>: a write whose values hold one raises \<^verbatim>\<open>TypeError\<close>
  before anything is sent. The one write with a number that \<^verbatim>\<open>handler.py\<close> computes by
  division, the attempt of \<^verbatim>\<open>save_quiz_attempt\<close> below, is modelled with that refusal.
\<close>

record store =
  documents_tbl :: "dict list"
  summaries_tbl :: "dict list"
  flashcards_tbl :: "dict list"
  quizzes_tbl :: "dict list"
  chat_tbl :: "dict list"
  bucket :: "(string \<times> bytes) list"

text \<open>
  The \<^verbatim>\<open>try ... except Exception\<close> around every handler: an exception becomes a 500 whose
  body is the message. No handler writes to a table before its last fallible step, so the
  store of a failed invocation is the one it started from.
\<close>

definition catch :: "exn + (response \<times> store) \<Rightarrow> store \<Rightarrow> response \<times> store" where
  "catch m s = (case m of Inl e \<Rightarrow> (error_response 500 (exn_str e), s) | Inr r \<Rightarrow> r)"

definition parse_body :: "env \<Rightarrow> event \<Rightarrow> exn + pyval" where
  "parse_body en ev =
     (case ev_body ev of
        None \<Rightarrow> Inr (PDict [])
      | Some (PStr b) \<Rightarrow> (if b = [] then Inr (PDict []) else json_loads en b)
      | Some b \<Rightarrow> Inr (if truthy b then b else PDict []))"

definition get_user_id_from_event :: "event \<Rightarrow> pyval" where
  "get_user_id_from_event ev =
     item_get (ev_claims ev) ''sub''
       (item_get (ev_claims ev) ''cognito:username'' (PStr ''anonymous''))"

subsection \<open>Table operations\<close>

definition get_item :: "dict list \<Rightarrow> string \<Rightarrow> string \<Rightarrow> dict option" where
  "get_item tbl key_name k = find (\<lambda>it. map_of it key_name = Some (PStr k)) tbl"

definition put_item :: "dict list \<Rightarrow> string \<Rightarrow> dict \<Rightarrow> dict list" where
  "put_item tbl key_name item =
     filter (\<lambda>it. map_of it key_name \<noteq> map_of item key_name) tbl @ [item]"

definition delete_item :: "dict list \<Rightarrow> string \<Rightarrow> string \<Rightarrow> dict list" where
  "delete_item tbl key_name k = filter (\<lambda>it. map_of it key_name \<noteq> Some (PStr k)) tbl"

text \<open>A query on a secondary index with the key condition \<^verbatim>\<open>attr = :v\<close>.\<close>

definition query_index :: "dict list \<Rightarrow> string \<Rightarrow> string \<Rightarrow> dict list" where
  "query_index tbl attr v = filter (\<lambda>it. map_of it attr = Some (PStr v)) tbl"

definition dict_set :: "dict \<Rightarrow> string \<Rightarrow> pyval \<Rightarrow> dict" where
  "dict_set d k v =
     (if k \<in> set (map fst d) then map (\<lambda>kv. if fst kv = k then (k, v) else kv) d
      else d @ [(k, v)])"

definition get_object :: "store \<Rightarrow> pyval \<Rightarrow> exn + bytes" where
  "get_object s key =
     (case key of
        PStr k \<Rightarrow> (case map_of (bucket s) k of None \<Rightarrow> Inl StorageError | Some b \<Rightarrow> Inr b)
      | _ \<Rightarrow> Inl StorageError)"

definition get_document_by_id :: "store \<Rightarrow> string \<Rightarrow> dict option" where
  "get_document_by_id s document_id = get_item (documents_tbl s) ''documentId'' document_id"

definition get_quiz_by_id :: "store \<Rightarrow> string \<Rightarrow> dict option" where
  "get_quiz_by_id s quiz_id = get_item (quizzes_tbl s) ''quizId'' quiz_id"

definition delete_document_by_id :: "store \<Rightarrow> string \<Rightarrow> store" where
  "delete_document_by_id s document_id =
     (case get_document_by_id s document_id of
        None \<Rightarrow> s
      | Some doc \<Rightarrow>
          (if doc = [] then s
           else
             (let s1 = (case map_of doc ''s3Key'' of
                          Some (PStr k) \<Rightarrow> s\<lparr>bucket := filter (\<lambda>kb. fst kb \<noteq> k) (bucket s)\<rparr>
                        | _ \<Rightarrow> s)
              in s1\<lparr>documents_tbl := delete_item (documents_tbl s1) ''documentId'' document_id\<rparr>)))"

definition save_summary :: "env \<Rightarrow> store \<Rightarrow> string \<Rightarrow> pyval \<Rightarrow> pyval \<Rightarrow> pyval \<Rightarrow> dict \<times> store"
where
  "save_summary en s document_id user_id summary_content lang =
     (let summary =
        [(''summaryId'', PStr (''sum-'' @ fresh_id en)),
         (''documentId'', PStr document_id),
         (''userId'', user_id),
         (''content'', summary_content),
         (''language'', lang),
         (''createdAt'', PStr (now en))]
      in (summary, s\<lparr>summaries_tbl := put_item (summaries_tbl s) ''summaryId'' summary\<rparr>))"

definition get_summary_by_document :: "store \<Rightarrow> string \<Rightarrow> dict option" where
  "get_summary_by_document s document_id =
     (case query_index (summaries_tbl s) ''documentId'' document_id of
        [] \<Rightarrow> None | it # _ \<Rightarrow> Some it)"

definition save_flashcard_set ::
  "env \<Rightarrow> store \<Rightarrow> string \<Rightarrow> pyval \<Rightarrow> pyval \<Rightarrow> pyval \<Rightarrow> pyval \<Rightarrow> exn + (dict \<times> store)"
where
  "save_flashcard_set en s document_id user_id title_v cards lang =
     (case py_len cards of
        Inl e \<Rightarrow> Inl e
      | Inr n \<Rightarrow>
          (let flashcard_set =
             [(''flashcardSetId'', PStr (''fc-'' @ fresh_id en)),
              (''documentId'', PStr document_id),
              (''userId'', user_id),
              (''title'', title_v),
              (''cards'', cards),
              (''cardCount'', PInt (int n)),
              (''language'', lang),
              (''createdAt'', PStr (now en))]
           in Inr (flashcard_set,
                   s\<lparr>flashcards_tbl :=
                       put_item (flashcards_tbl s) ''flashcardSetId'' flashcard_set\<rparr>)))"

definition get_flashcards_by_document :: "store \<Rightarrow> string \<Rightarrow> dict list" where
  "get_flashcards_by_document s document_id =
     query_index (flashcards_tbl s) ''documentId'' document_id"

definition save_quiz ::
  "env \<Rightarrow> store \<Rightarrow> string \<Rightarrow> pyval \<Rightarrow> pyval \<Rightarrow> pyval \<Rightarrow> pyval \<Rightarrow> exn + (dict \<times> store)"
where
  "save_quiz en s document_id user_id title_v questions lang =
     (case py_len questions of
        Inl e \<Rightarrow> Inl e
      | Inr n \<Rightarrow>
          (let quiz =
             [(''quizId'', PStr (''quiz-'' @ fresh_id en)),
              (''documentId'', PStr document_id),
              (''userId'', user_id),
              (''title'', title_v),
              (''questions'', questions),
              (''questionCount'', PInt (int n)),
              (''language'', lang),
              (''attempts'', PList []),
              (''createdAt'', PStr (now en))]
           in Inr (quiz, s\<lparr>quizzes_tbl := put_item (quizzes_tbl s) ''quizId'' quiz\<rparr>)))"

text \<open>
  \<^verbatim>\<open>SET attempts = list_append(if_not_exists(attempts, :empty), :attempt)\<close> on the item
  with the given key; the update creates the item when the table has none.
\<close>

definition append_attempt :: "dict list \<Rightarrow> string \<Rightarrow> pyval \<Rightarrow> exn + dict list" where
  "append_attempt tbl quiz_id attempt =
     (case get_item tbl ''quizId'' quiz_id of
        None \<Rightarrow> Inr (tbl @ [[(''quizId'', PStr quiz_id), (''attempts'', PList [attempt])]])
      | Some it \<Rightarrow>
          (case map_of it ''attempts'' of
             None \<Rightarrow>
               Inr (map (\<lambda>x. if map_of x ''quizId'' = Some (PStr quiz_id)
                              then dict_set x ''attempts'' (PList [attempt]) else x) tbl)
           | Some (PList old) \<Rightarrow>
               Inr (map (\<lambda>x. if map_of x ''quizId'' = Some (PStr quiz_id)
                              then dict_set x ''attempts'' (PList (old @ [attempt])) else x) tbl)
           | Some _ \<Rightarrow> Inl StorageError))"

text \<open>
  Whether a value holds a Python \<^verbatim>\<open>float\<close>, at any depth. The serialiser of the table
  resource walks the whole value and raises \<^verbatim>\<open>TypeError\<close> at the first one.
\<close>

fun has_float :: "pyval \<Rightarrow> bool"
  and has_float_list :: "pyval list \<Rightarrow> bool"
  and has_float_items :: "dict \<Rightarrow> bool"
where
  "has_float (PFloat r) = True"
| "has_float (PList xs) = has_float_list xs"
| "has_float (PDict d) = has_float_items d"
| "has_float PNone = False"
| "has_float (PBool b) = False"
| "has_float (PInt i) = False"
| "has_float (PStr t) = False"
| "has_float_list [] = False"
| "has_float_list (x # xs) = (has_float x \<or> has_float_list xs)"
| "has_float_items [] = False"
| "has_float_items ((k, v) # d) = (has_float v \<or> has_float_items d)"

text \<open>
  \<^verbatim>\<open>save_quiz_attempt\<close>: the attempt is built from the submitted answers and the computed
  score, total and percentage, serialised, and appended with \<^verbatim>\<open>update_item\<close>.
\<close>

definition save_quiz_attempt ::
  "env \<Rightarrow> store \<Rightarrow> string \<Rightarrow> pyval \<Rightarrow> nat \<Rightarrow> nat \<Rightarrow> pyval \<Rightarrow> exn + (dict \<times> store)"
where
  "save_quiz_attempt en s quiz_id answers score total_q percentage =
     (let attempt =
        [(''attemptId'', PStr (''att-'' @ fresh_id en)),
         (''answers'', answers),
         (''score'', PInt (int score)),
         (''totalQuestions'', PInt (int total_q)),
         (''percentage'', percentage),
         (''completedAt'', PStr (now en))]
      in if has_float (PDict attempt) then Inl TypeError
         else case append_attempt (quizzes_tbl s) quiz_id (PDict attempt) of
                Inl e \<Rightarrow> Inl e
              | Inr tbl \<Rightarrow> Inr (attempt, s\<lparr>quizzes_tbl := tbl\<rparr>))"

definition save_chat_message ::
  "env \<Rightarrow> store \<Rightarrow> string \<Rightarrow> pyval \<Rightarrow> pyval \<Rightarrow> pyval \<Rightarrow> dict \<times> store"
where
  "save_chat_message en s document_id user_id user_message assistant_response =
     (let chat =
        [(''chatId'', PStr (''chat-'' @ fresh_id en)),
         (''documentId'', PStr document_id),
         (''userId'', user_id),
         (''userMessage'', user_message),
         (''assistantResponse'', assistant_response),
         (''createdAt'', PStr (now en))]
      in (chat, s\<lparr>chat_tbl := put_item (chat_tbl s) ''chatId'' chat\<rparr>))"

subsection \<open>Chat history\<close>

definition created_at :: "dict \<Rightarrow> string" where
  "created_at it = (case map_of it ''createdAt'' of Some (PStr t) \<Rightarrow> t | _ \<Rightarrow> [])"

definition in_document_index :: "string \<Rightarrow> dict \<Rightarrow> bool" where
  "in_document_index document_id it =
     (map_of it ''documentId'' = Some (PStr document_id) \<and>
      (case map_of it ''createdAt'' of Some (PStr t) \<Rightarrow> True | _ \<Rightarrow> False))"

text \<open>
  Modelled from the spec: the key schema of the chat table's \<^verbatim>\<open>documentId-index\<close> is
  declared outside \<^verbatim>\<open>handler.py\<close>. The spec has history retrieval fetch the most recent N
  turns of the document, descending by timestamp; so the index is taken to have
  \<^verbatim>\<open>documentId\<close> as partition key and \<^verbatim>\<open>createdAt\<close> as range key, both strings, and the
  query with \<^verbatim>\<open>ScanIndexForward=False\<close> and \<^verbatim>\<open>Limit=limit\<close> returns the first \<^verbatim>\<open>limit\<close>
  indexed items of the document in descending order of \<^verbatim>\<open>createdAt\<close>.
\<close>

definition query_recent :: "dict list \<Rightarrow> string \<Rightarrow> nat \<Rightarrow> dict list" where
  "query_recent tbl document_id limit =
     take limit (rev (sort_key created_at (filter (in_document_index document_id) tbl)))"

text \<open>
  \<^verbatim>\<open>sorted(items, key=lambda x: x.get('createdAt', ''))\<close>: string keys are compared by
  code point, and the sort is stable. Keys that are not strings are refused here with
  \<^const>\<open>TypeError\<close>; no item of the index has one.
\<close>

definition sorted_by_created_at :: "dict list \<Rightarrow> exn + dict list" where
  "sorted_by_created_at its =
     (if list_all (\<lambda>it. case map_of it ''createdAt'' of
                           None \<Rightarrow> True | Some (PStr t) \<Rightarrow> True | Some _ \<Rightarrow> False) its
      then Inr (sort_key created_at its) else Inl TypeError)"

definition get_chat_history_by_document ::
  "store \<Rightarrow> string \<Rightarrow> pyval \<Rightarrow> nat \<Rightarrow> exn + dict list"
where
  "get_chat_history_by_document s document_id user_id limit =
     sorted_by_created_at
       (filter (\<lambda>it. py_eq (item_get it ''userId'' PNone) user_id)
          (query_recent (chat_tbl s) document_id limit))"

section \<open>Handlers\<close>

text \<open>
  Every handler takes the event and the store and returns the response and the store it
  leaves. The two early exits shared by the document-scoped handlers:
\<close>

definition not_found :: "string \<Rightarrow> store \<Rightarrow> exn + (response \<times> store)" where
  "not_found msg s = Inr (error_response 404 msg, s)"

definition access_denied :: "store \<Rightarrow> exn + (response \<times> store)" where
  "access_denied s = Inr (error_response 403 ''Access denied'', s)"

definition bad_request :: "string \<Rightarrow> store \<Rightarrow> exn + (response \<times> store)" where
  "bad_request msg s = Inr (error_response 400 msg, s)"

subsection \<open>Summaries\<close>

text \<open>The fallback of \<^verbatim>\<open>summarize_document\<close> when the document has no cached text.\<close>

definition fetch_and_extract :: "env \<Rightarrow> store \<Rightarrow> dict \<Rightarrow> exn + pyval" where
  "fetch_and_extract en s document =
     bind_exn (item_sub document ''s3Key'') (\<lambda>key.
     bind_exn (get_object s key) (\<lambda>file_content.
     bind_exn (item_sub document ''fileName'') (\<lambda>fn.
       case fn of
         PStr file_name \<Rightarrow>
           bind_exn (extract_text_from_file en file_content file_name 100000)
             (\<lambda>t. Inr (PStr t))
       | _ \<Rightarrow> Inl AttributeError)))"

definition summarize_document :: "env \<Rightarrow> event \<Rightarrow> store \<Rightarrow> response \<times> store" where
  "summarize_document en ev s = catch
     (let user_id = get_user_id_from_event ev; document_id = ev_path_id ev in
      bind_exn (parse_body en ev) (\<lambda>body.
      bind_exn (dict_get body ''language'' (PStr ''Vietnamese'')) (\<lambda>lang.
        case get_document_by_id s document_id of
          None \<Rightarrow> not_found ''Document not found'' s
        | Some document \<Rightarrow>
            if document = [] then not_found ''Document not found'' s
            else if \<not> py_eq (item_get document ''userId'' PNone) user_id then access_denied s
            else
              bind_exn
                (if \<not> truthy (item_get document ''extractedText'' (PStr []))
                 then fetch_and_extract en s document
                 else Inr (item_get document ''extractedText'' (PStr [])))
                (\<lambda>extracted_text.
                   if \<not> truthy extracted_text then bad_request ''No text content available'' s
                   else
                     bind_exn (slice_prefix 15000 extracted_text) (\<lambda>content.
                     bind_exn (call_gpt en (SummarizePrompt content lang)) (\<lambda>summary_content.
                       case save_summary en s document_id user_id (PStr summary_content) lang of
                         (summary, s') \<Rightarrow>
                           Inr (Response 200
                                  (PDict [(''message'', PStr ''Summary generated successfully''),
                                          (''summary'', PDict summary)]), s'))))))) s"

definition get_summary :: "env \<Rightarrow> event \<Rightarrow> store \<Rightarrow> response \<times> store" where
  "get_summary en ev s = catch
     (let user_id = get_user_id_from_event ev; document_id = ev_path_id ev in
      case get_document_by_id s document_id of
        None \<Rightarrow> not_found ''Document not found'' s
      | Some document \<Rightarrow>
          if document = [] then not_found ''Document not found'' s
          else if \<not> py_eq (item_get document ''userId'' PNone) user_id then access_denied s
          else
            (case get_summary_by_document s document_id of
               None \<Rightarrow> not_found ''Summary not found'' s
             | Some summary \<Rightarrow>
                 if summary = [] then not_found ''Summary not found'' s
                 else Inr (Response 200 (PDict [(''summary'', PDict summary)]), s))) s"

subsection \<open>Flashcards\<close>

definition create_flashcards :: "env \<Rightarrow> event \<Rightarrow> store \<Rightarrow> response \<times> store" where
  "create_flashcards en ev s = catch
     (let user_id = get_user_id_from_event ev; document_id = ev_path_id ev in
      bind_exn (parse_body en ev) (\<lambda>body.
      bind_exn (dict_get body ''count'' PNone) (\<lambda>count_v.
      bind_exn (dict_get body ''numCards'' PNone) (\<lambda>num_cards_v.
      bind_exn (dict_get body ''language'' (PStr ''Vietnamese'')) (\<lambda>lang.
      bind_exn (dict_get body ''title'' (PStr ''Flashcard Set'')) (\<lambda>title_v.
        let num_cards = py_or (py_or count_v num_cards_v) (PInt 20) in
        case get_document_by_id s document_id of
          None \<Rightarrow> not_found ''Document not found'' s
        | Some document \<Rightarrow>
            if document = [] then not_found ''Document not found'' s
            else if \<not> py_eq (item_get document ''userId'' PNone) user_id then access_denied s
            else if \<not> truthy (item_get document ''extractedText'' (PStr []))
              then bad_request ''No text content available'' s
            else
              bind_exn (slice_prefix 15000 (item_get document ''extractedText'' (PStr [])))
                (\<lambda>content.
              bind_exn (call_gpt_json en (FlashcardsPrompt content num_cards lang)) (\<lambda>cards.
              bind_exn (save_flashcard_set en s document_id user_id title_v cards lang)
                (\<lambda>r. case r of
                   (flashcard_set, s') \<Rightarrow>
                     Inr (Response 201
                            (PDict [(''message'', PStr ''Flashcards created successfully''),
                                    (''flashcardSet'', PDict flashcard_set),
                                    (''flashcards'', cards)]), s')))))))))) s"

definition get_flashcards :: "env \<Rightarrow> event \<Rightarrow> store \<Rightarrow> response \<times> store" where
  "get_flashcards en ev s = catch
     (let user_id = get_user_id_from_event ev; document_id = ev_path_id ev in
      case get_document_by_id s document_id of
        None \<Rightarrow> not_found ''Document not found'' s
      | Some document \<Rightarrow>
          if document = [] then not_found ''Document not found'' s
          else if \<not> py_eq (item_get document ''userId'' PNone) user_id then access_denied s
          else
            Inr (Response 200
                   (PDict [(''flashcardSets'',
                            PList (map PDict (get_flashcards_by_document s document_id)))]),
                 s)) s"

subsection \<open>Quizzes\<close>

text \<open>
  Lines 743 and 744 of \<^verbatim>\<open>create_quiz\<close>:
  \<^verbatim>\<open>if isinstance(questions, list) and len(questions) > num_questions:
      questions = questions[:num_questions]\<close>.
  Comparing an \<^verbatim>\<open>int\<close> with a string, a list, a dictionary or \<^verbatim>\<open>None\<close> raises, and so does
  slicing with a float.
\<close>

definition truncate_questions :: "pyval \<Rightarrow> pyval \<Rightarrow> exn + pyval" where
  "truncate_questions questions num_questions =
     (case questions of
        PList qs \<Rightarrow>
          (case num_questions of
             PInt n \<Rightarrow> Inr (if int (length qs) > n then PList (py_slice_to n qs) else questions)
           | PBool b \<Rightarrow>
               Inr (if int (length qs) > (if b then 1 else 0)
                    then PList (py_slice_to (if b then 1 else 0) qs) else questions)
           | PFloat r \<Rightarrow> (if real (length qs) > r then Inl TypeError else Inr questions)
           | _ \<Rightarrow> Inl TypeError)
      | _ \<Rightarrow> Inr questions)"

definition create_quiz :: "env \<Rightarrow> event \<Rightarrow> store \<Rightarrow> response \<times> store" where
  "create_quiz en ev s = catch
     (let user_id = get_user_id_from_event ev; document_id = ev_path_id ev in
      bind_exn (parse_body en ev) (\<lambda>body.
      bind_exn (dict_get body ''questionCount'' PNone) (\<lambda>question_count_v.
      bind_exn (dict_get body ''numQuestions'' PNone) (\<lambda>num_questions_v.
      bind_exn (dict_get body ''language'' (PStr ''Vietnamese'')) (\<lambda>lang.
      bind_exn (dict_get body ''title'' (PStr ''Quiz'')) (\<lambda>title_v.
      bind_exn (dict_get body ''difficulty'' (PStr ''medium'')) (\<lambda>difficulty.
        let num_questions = py_or (py_or question_count_v num_questions_v) (PInt 10) in
        case get_document_by_id s document_id of
          None \<Rightarrow> not_found ''Document not found'' s
        | Some document \<Rightarrow>
            if document = [] then not_found ''Document not found'' s
            else if \<not> py_eq (item_get document ''userId'' PNone) user_id then access_denied s
            else if \<not> truthy (item_get document ''extractedText'' (PStr []))
              then bad_request ''No text content available'' s
            else
              bind_exn (slice_prefix 15000 (item_get document ''extractedText'' (PStr [])))
                (\<lambda>content.
              bind_exn (call_gpt_json en (QuizPrompt content num_questions lang difficulty))
                (\<lambda>decoded.
              bind_exn (truncate_questions decoded num_questions) (\<lambda>questions.
              bind_exn (save_quiz en s document_id user_id title_v questions lang)
                (\<lambda>r. case r of
                   (quiz, s') \<Rightarrow>
                     Inr (Response 201
                            (PDict [(''message'', PStr ''Quiz created successfully''),
                                    (''quiz'', PDict quiz)]), s')))))))))))) s"

text \<open>The loop of \<^verbatim>\<open>get_quiz\<close> that builds \<^verbatim>\<open>questions_for_user\<close>.\<close>

fun questions_for_user :: "pyval list \<Rightarrow> exn + pyval list" where
  "questions_for_user [] = Inr []"
| "questions_for_user (q # qs) =
     bind_exn (subscript q ''question'') (\<lambda>question_v.
     bind_exn (subscript q ''options'') (\<lambda>options_v.
     bind_exn (questions_for_user qs) (\<lambda>rest.
       Inr (PDict [(''question'', question_v), (''options'', options_v)] # rest))))"

definition get_quiz :: "env \<Rightarrow> event \<Rightarrow> store \<Rightarrow> response \<times> store" where
  "get_quiz en ev s = catch
     (let user_id = get_user_id_from_event ev; quiz_id = ev_path_id ev in
      case get_quiz_by_id s quiz_id of
        None \<Rightarrow> not_found ''Quiz not found'' s
      | Some quiz \<Rightarrow>
          if quiz = [] then not_found ''Quiz not found'' s
          else if \<not> py_eq (item_get quiz ''userId'' PNone) user_id then access_denied s
          else
            bind_exn (py_iter (item_get quiz ''questions'' (PList []))) (\<lambda>qs.
            bind_exn (questions_for_user qs) (\<lambda>shown.
            bind_exn (item_sub quiz ''quizId'') (\<lambda>quiz_id_v.
              Inr (Response 200
                     (PDict [(''quiz'',
                        PDict [(''quizId'', quiz_id_v),
                               (''title'', item_get quiz ''title'' (PStr ''Quiz'')),
                               (''questions'', PList shown),
                               (''questionCount'', PInt (int (length shown)))])]),
                   s))))) s"

text \<open>
  The grading loop of \<^verbatim>\<open>submit_quiz\<close>: \<^verbatim>\<open>idx\<close> is the index \<^verbatim>\<open>enumerate\<close> has reached,
  \<^verbatim>\<open>correct\<close> and \<^verbatim>\<open>results\<close> are the two accumulators.
\<close>

fun grade_loop ::
  "pyval \<Rightarrow> nat \<Rightarrow> pyval list \<Rightarrow> nat \<Rightarrow> pyval list \<Rightarrow> exn + (nat \<times> pyval list)"
where
  "grade_loop answers idx [] correct results = Inr (correct, results)"
| "grade_loop answers idx (q # qs) correct results =
     bind_exn (dict_get answers (str_nat idx) PNone) (\<lambda>user_answer.
     bind_exn (subscript q ''correct_answer'') (\<lambda>correct_answer.
     bind_exn (dict_get q ''explanation'' (PStr [])) (\<lambda>explanation.
       grade_loop answers (Suc idx) qs
         (if py_eq user_answer correct_answer then correct + 1 else correct)
         (results @
            [PDict [(''question_index'', PInt (int idx)),
                    (''user_answer'', user_answer),
                    (''correct_answer'', correct_answer),
                    (''is_correct'', PBool (py_eq user_answer correct_answer)),
                    (''explanation'', explanation)]]))))"

text \<open>\<^verbatim>\<open>round((correct / total) * 100, 1) if total > 0 else 0\<close>.\<close>

definition percentage_of :: "env \<Rightarrow> nat \<Rightarrow> nat \<Rightarrow> pyval" where
  "percentage_of en correct total_q =
     (if total_q > 0
      then PFloat (round_ndigits en
                     (float_mul en (truediv en (int correct) (int total_q)) 100) 1)
      else PInt 0)"

text \<open>\<^verbatim>\<open>x >= n\<close> for a number \<^verbatim>\<open>x\<close> and an integer literal \<^verbatim>\<open>n\<close>.\<close>

definition py_ge :: "pyval \<Rightarrow> int \<Rightarrow> bool" where
  "py_ge x n = (case py_num x of Some r \<Rightarrow> r \<ge> of_int n | None \<Rightarrow> False)"

definition submit_quiz :: "env \<Rightarrow> event \<Rightarrow> store \<Rightarrow> response \<times> store" where
  "submit_quiz en ev s = catch
     (let user_id = get_user_id_from_event ev; quiz_id = ev_path_id ev in
      bind_exn (parse_body en ev) (\<lambda>body.
      bind_exn (dict_get body ''answers'' (PDict [])) (\<lambda>answers.
        case get_quiz_by_id s quiz_id of
          None \<Rightarrow> not_found ''Quiz not found'' s
        | Some quiz \<Rightarrow>
            if quiz = [] then not_found ''Quiz not found'' s
            else if \<not> py_eq (item_get quiz ''userId'' PNone) user_id then access_denied s
            else
              bind_exn (item_sub quiz ''questions'') (\<lambda>questions.
              bind_exn (py_len questions) (\<lambda>total_q.
              bind_exn (py_iter questions) (\<lambda>qs.
              bind_exn (grade_loop answers 0 qs 0 []) (\<lambda>g.
                case g of
                  (correct, results) \<Rightarrow>
                    bind_exn
                      (save_quiz_attempt en s quiz_id answers correct total_q
                         (percentage_of en correct total_q))
                      (\<lambda>r. case r of
                         (attempt, s') \<Rightarrow>
                           Inr (Response 200
                                  (PDict [(''message'', PStr ''Quiz submitted''),
                                     (''result'',
                                      PDict [(''score'', PInt (int correct)),
                                             (''totalQuestions'', PInt (int total_q)),
                                             (''percentage'', percentage_of en correct total_q),
                                             (''results'', PList results),
                                             (''passed'',
                                              PBool (py_ge (percentage_of en correct total_q)
                                                       60))])]),
                                s'))))))))) s"

subsection \<open>Chat\<close>

definition chat_with_document :: "env \<Rightarrow> event \<Rightarrow> store \<Rightarrow> response \<times> store" where
  "chat_with_document en ev s = catch
     (let user_id = get_user_id_from_event ev; document_id = ev_path_id ev in
      bind_exn (parse_body en ev) (\<lambda>body.
      bind_exn (dict_get body ''question'' PNone) (\<lambda>question_v.
      bind_exn (dict_get body ''message'' (PStr [])) (\<lambda>message_v.
      bind_exn (dict_get body ''language'' (PStr ''Vietnamese'')) (\<lambda>lang.
        let question = py_or question_v message_v in
        if \<not> truthy question then bad_request ''Question/message is required'' s
        else
          case get_document_by_id s document_id of
            None \<Rightarrow> not_found ''Document not found'' s
          | Some document \<Rightarrow>
              if document = [] then not_found ''Document not found'' s
              else if \<not> py_eq (item_get document ''userId'' PNone) user_id
                then access_denied s
              else if \<not> truthy (item_get document ''extractedText'' (PStr []))
                then bad_request ''No text content available'' s
              else
                bind_exn (slice_prefix 10000 (item_get document ''extractedText'' (PStr [])))
                  (\<lambda>content.
                bind_exn (call_gpt en (ChatPrompt content question lang)) (\<lambda>answer.
                  case save_chat_message en s document_id user_id question (PStr answer) of
                    (chat, s') \<Rightarrow>
                      bind_exn (item_sub chat ''chatId'') (\<lambda>chat_id.
                        Inr (Response 200
                               (PDict [(''question'', question),
                                       (''answer'', PStr answer),
                                       (''chatId'', chat_id)]), s'))))))))) s"

definition get_chat_history :: "env \<Rightarrow> event \<Rightarrow> store \<Rightarrow> response \<times> store" where
  "get_chat_history en ev s = catch
     (let user_id = get_user_id_from_event ev; document_id = ev_path_id ev in
      case get_document_by_id s document_id of
        None \<Rightarrow> not_found ''Document not found'' s
      | Some document \<Rightarrow>
          if document = [] then not_found ''Document not found'' s
          else if \<not> py_eq (item_get document ''userId'' PNone) user_id then access_denied s
          else
            bind_exn (get_chat_history_by_document s document_id user_id 20) (\<lambda>history.
              Inr (Response 200
                     (PDict [(''chatHistory'', PList (map PDict history)),
                             (''count'', PInt (int (length history)))]), s))) s"

subsection \<open>Explanations\<close>

text \<open>
  \<^verbatim>\<open>level_instructions.get(level, level_instructions['eli5'])\<close>: a list or a dictionary is
  not hashable and cannot be looked up.
\<close>

definition level_preset :: "pyval \<Rightarrow> exn + level" where
  "level_preset lv =
     (case lv of
        PList xs \<Rightarrow> Inl TypeError
      | PDict d \<Rightarrow> Inl TypeError
      | PStr l \<Rightarrow>
          Inr (if l = ''eli5'' then Eli5 else if l = ''beginner'' then Beginner
               else if l = ''intermediate'' then Intermediate
               else if l = ''expert'' then Expert else Eli5)
      | _ \<Rightarrow> Inr Eli5)"

definition explain_concept :: "env \<Rightarrow> event \<Rightarrow> response" where
  "explain_concept en ev =
     (case
        bind_exn (parse_body en ev) (\<lambda>body.
        bind_exn (dict_get body ''text'' PNone) (\<lambda>text_v.
        bind_exn (dict_get body ''concept'' (PStr [])) (\<lambda>concept_v.
        bind_exn (dict_get body ''language'' (PStr ''Vietnamese'')) (\<lambda>lang.
        bind_exn (dict_get body ''level'' (PStr ''eli5'')) (\<lambda>level_v.
          let text_in = py_or text_v concept_v in
          if \<not> truthy text_in then Inr (error_response 400 ''Text or concept is required'')
          else
            bind_exn (py_len text_in) (\<lambda>n.
              if n > 5000 then Inr (error_response 400 ''Text too long'')
              else
                bind_exn (level_preset level_v) (\<lambda>preset.
                bind_exn (call_gpt en (ExplainPrompt preset text_in lang)) (\<lambda>explanation.
                  Inr (Response 200
                         (PDict [(''originalText'', text_in),
                                 (''level'', level_v),
                                 (''explanation'', PStr explanation)]))))))))))
      of Inl e \<Rightarrow> error_response 500 (exn_str e) | Inr r \<Rightarrow> r)"

subsection \<open>Documents\<close>

definition get_document :: "env \<Rightarrow> event \<Rightarrow> store \<Rightarrow> response \<times> store" where
  "get_document en ev s = catch
     (let user_id = get_user_id_from_event ev; document_id = ev_path_id ev in
      case get_document_by_id s document_id of
        None \<Rightarrow> not_found ''Document not found'' s
      | Some document \<Rightarrow>
          if document = [] then not_found ''Document not found'' s
          else if \<not> py_eq (item_get document ''userId'' PNone) user_id then access_denied s
          else
            Inr (Response 200
                   (PDict [(''document'',
                            PDict (dict_set
                                     (filter (\<lambda>kv. fst kv \<noteq> ''extractedText'') document)
                                     ''hasText''
                                     (PBool (truthy (item_get document ''extractedText'' PNone))))),
                           (''summary'',
                            (case get_summary_by_document s document_id of
                               None \<Rightarrow> PNone | Some summary \<Rightarrow> PDict summary)),
                           (''flashcardSets'',
                            PList (map PDict (get_flashcards_by_document s document_id)))]),
                 s)) s"

definition delete_document :: "env \<Rightarrow> event \<Rightarrow> store \<Rightarrow> response \<times> store" where
  "delete_document en ev s = catch
     (let user_id = get_user_id_from_event ev; document_id = ev_path_id ev in
      case get_document_by_id s document_id of
        None \<Rightarrow> not_found ''Document not found'' s
      | Some document \<Rightarrow>
          if document = [] then not_found ''Document not found'' s
          else if \<not> py_eq (item_get document ''userId'' PNone) user_id then access_denied s
          else
            Inr (Response 200
                   (PDict [(''message'', PStr ''Document deleted successfully''),
                           (''documentId'', PStr document_id)]),
                 delete_document_by_id s document_id)) s"

subsection \<open>The document-scoped operations\<close>

text \<open>
  The eleven operations that act on one entity named in the path, with the table that
  holds the entity. The routing itself is outside \<^verbatim>\<open>handler.py\<close>; \<^verbatim>\<open>run\<close> only names
  the handler of each operation.
\<close>

datatype operation = Summarize | GetSummary | CreateFlashcards | GetFlashcards
  | CreateQuiz | GetQuiz | SubmitQuiz | Chat | ChatHistory | GetDocument | DeleteDocument

fun run :: "operation \<Rightarrow> env \<Rightarrow> event \<Rightarrow> store \<Rightarrow> response \<times> store" where
  "run Summarize = summarize_document"
| "run GetSummary = get_summary"
| "run CreateFlashcards = create_flashcards"
| "run GetFlashcards = get_flashcards"
| "run CreateQuiz = create_quiz"
| "run GetQuiz = get_quiz"
| "run SubmitQuiz = submit_quiz"
| "run Chat = chat_with_document"
| "run ChatHistory = get_chat_history"
| "run GetDocument = get_document"
| "run DeleteDocument = delete_document"

fun target :: "operation \<Rightarrow> store \<Rightarrow> string \<Rightarrow> dict option" where
  "target GetQuiz s k = get_quiz_by_id s k"
| "target SubmitQuiz s k = get_quiz_by_id s k"
| "target opn s k = get_document_by_id s k"

section \<open>The grading rule, as the specification words it\<close>

text \<open>
  The stored correct index of a question and its stored explanation; a question carries
  a correct index when its \<^verbatim>\<open>correct_answer\<close> entry is an integer.
\<close>

definition correct_index :: "pyval \<Rightarrow> pyval" where
  "correct_index q = (case q of PDict d \<Rightarrow> item_get d ''correct_answer'' PNone | _ \<Rightarrow> PNone)"

definition has_correct_index :: "pyval \<Rightarrow> bool" where
  "has_correct_index q =
     (case q of
        PDict d \<Rightarrow> (case map_of d ''correct_answer'' of Some (PInt c) \<Rightarrow> True | _ \<Rightarrow> False)
      | _ \<Rightarrow> False)"

definition stored_explanation :: "pyval \<Rightarrow> pyval" where
  "stored_explanation q =
     (case q of PDict d \<Rightarrow> item_get d ''explanation'' (PStr []) | _ \<Rightarrow> PStr [])"

text \<open>
  Question \<^verbatim>\<open>i\<close> counts when the answers map has an entry at \<^verbatim>\<open>str(i)\<close> and the entry
  equals the stored correct index.
\<close>

definition spec_matches :: "dict \<Rightarrow> nat \<times> pyval \<Rightarrow> bool" where
  "spec_matches a iq =
     (case map_of a (str_nat (fst iq)) of
        None \<Rightarrow> False
      | Some v \<Rightarrow> py_eq v (correct_index (snd iq)))"

definition spec_detail :: "dict \<Rightarrow> nat \<times> pyval \<Rightarrow> pyval" where
  "spec_detail a iq =
     PDict [(''question_index'', PInt (int (fst iq))),
            (''user_answer'', item_get a (str_nat (fst iq)) PNone),
            (''correct_answer'', correct_index (snd iq)),
            (''is_correct'', PBool (spec_matches a iq)),
            (''explanation'', stored_explanation (snd iq))]"

text \<open>
  A question as shown for taking has the question text and the options and nothing
  else.
\<close>

definition redacted :: "pyval \<Rightarrow> bool" where
  "redacted q = (case q of PDict d \<Rightarrow> map fst d = [''question'', ''options''] | _ \<Rightarrow> False)"

section \<open>Creation counts, as the specification words them\<close>


text \<open>A field of the quiz stored under an identifier.\<close>

definition stored_quiz_field :: "store \<Rightarrow> string \<Rightarrow> string \<Rightarrow> pyval option" where
  "stored_quiz_field s quiz_id k =
     (case get_quiz_by_id s quiz_id of None \<Rightarrow> None | Some quiz \<Rightarrow> map_of quiz k)"


text \<open>Line 967 of \<^verbatim>\<open>explain_concept\<close>: the text that a request body resolves to.\<close>

definition resolved_text :: "dict \<Rightarrow> pyval" where
  "resolved_text b = py_or (item_get b ''text'' PNone) (item_get b ''concept'' (PStr []))"

section \<open>Rejections that precede the lookup\<close>

text \<open>
  Five handlers read the request body before they load the entity: a body that does not
  decode, or decodes to something other than an object, ends them with a 500, and
  \<^const>\<open>chat_with_document\<close> answers 400 to a request without a question. The message of
  the 404 depends on the table.
\<close>

definition reads_body :: "operation \<Rightarrow> bool" where
  "reads_body opn = (opn \<in> set [Summarize, CreateFlashcards, CreateQuiz, SubmitQuiz, Chat])"

definition early_rejection :: "operation \<Rightarrow> env \<Rightarrow> event \<Rightarrow> response option" where
  "early_rejection opn en ev =
     (if reads_body opn
      then (case parse_body en ev of
              Inl e \<Rightarrow> Some (error_response 500 (exn_str e))
            | Inr body \<Rightarrow>
                (case body of
                   PDict b \<Rightarrow>
                     (if opn = Chat \<and>
                         \<not> truthy (py_or (item_get b ''question'' PNone)
                                      (item_get b ''message'' (PStr [])))
                      then Some (error_response 400 ''Question/message is required'')
                      else None)
                 | _ \<Rightarrow> Some (error_response 500 (exn_str AttributeError))))
      else None)"

definition missing_message :: "operation \<Rightarrow> string" where
  "missing_message opn =
     (if opn = GetQuiz \<or> opn = SubmitQuiz then ''Quiz not found'' else ''Document not found'')"

definition refused :: "operation \<Rightarrow> env \<Rightarrow> event \<Rightarrow> response \<Rightarrow> response" where
  "refused opn en ev r = (case early_rejection opn en ev of Some early \<Rightarrow> early | None \<Rightarrow> r)"

section \<open>The history window\<close>

text \<open>
  The turns of a document that the query of \<^const>\<open>query_recent\<close> leaves out: those past
  the first \<^verbatim>\<open>limit\<close> in descending order of \<^verbatim>\<open>createdAt\<close>.
\<close>

definition beyond_window :: "dict list \<Rightarrow> string \<Rightarrow> nat \<Rightarrow> dict list" where
  "beyond_window tbl document_id limit =
     drop limit (rev (sort_key created_at (filter (in_document_index document_id) tbl)))"

section \<open>Fenced replies\<close>

text \<open>
  What the clean-up of \<^const>\<open>strip_code_fence\<close> needs of a payload, once trimmed, to leave
  it alone: it neither begins nor ends with a backtick, and it does not begin with the
  letter of the \<^verbatim>\<open>json\<close> tag.
\<close>

definition fence_free :: "string \<Rightarrow> bool" where
  "fence_free p =
     (\<not> startswith p [CHR 0x60] \<and> \<not> startswith p ''j'' \<and> \<not> endswith p [CHR 0x60])"

text \<open>
  The first and last character of a text that \<^verbatim>\<open>json.loads\<close> accepts, once trimmed: an
  object, an array, a string, a number, \<^verbatim>\<open>true\<close>, \<^verbatim>\<open>false\<close>, \<^verbatim>\<open>null\<close>, and Python's
  \<^verbatim>\<open>NaN\<close>, \<^verbatim>\<open>Infinity\<close> and \<^verbatim>\<open>-Infinity\<close>.
\<close>

definition json_delimited :: "string \<Rightarrow> bool" where
  "json_delimited p =
     (p \<noteq> [] \<and> hd p \<in> set (CHR 0x22 # ''{[-0123456789tfnNI'') \<and>
      last p \<in> set (CHR 0x22 # ''}]0123456789elNy''))"

text \<open>The environment in which the model replies \<^verbatim>\<open>raw\<close> to every prompt.\<close>

definition replying :: "env \<Rightarrow> string \<Rightarrow> env" where
  "replying en raw = en\<lparr>call_gpt := (\<lambda>p. Inr raw)\<rparr>"

section \<open>Sample data\<close>

text \<open>
  An environment with exact arithmetic in place of the float operations and with
  collaborators that always fail, one document, one quiz, and requests on them.
\<close>

definition exact_env :: env where
  "exact_env =
     \<lparr>fresh_id = ''0001'', now = ''2024-01-01T00:00:00Z'',
      call_gpt = (\<lambda>p. Inl UpstreamError),
      json_loads = (\<lambda>t. Inl JSONDecodeError),
      pdf_reader = (\<lambda>b. Inl LibraryError),
      docx_paragraphs = (\<lambda>b. Inl LibraryError),
      utf8_decode = (\<lambda>b. Inl UnicodeDecodeError),
      truediv = (\<lambda>a b. of_int a / of_int b),
      float_mul = (\<lambda>r n. r * of_int n),
      round_ndigits = (\<lambda>r n. of_int (round (r * 10)) / 10)\<rparr>"

definition sample_question :: "int \<Rightarrow> pyval" where
  "sample_question c =
     PDict [(''question'', PStr ''Q''),
            (''options'', PList [PStr ''A'', PStr ''B'', PStr ''C'', PStr ''D'']),
            (''correct_answer'', PInt c),
            (''explanation'', PStr ''E'')]"

definition sample_quiz :: dict where
  "sample_quiz =
     [(''quizId'', PStr ''quiz-1''), (''documentId'', PStr ''doc-1''),
      (''userId'', PStr ''alice''), (''title'', PStr ''Quiz''),
      (''questions'', PList [sample_question 1, sample_question 2]),
      (''questionCount'', PInt 2), (''language'', PStr ''English''),
      (''attempts'', PList []), (''createdAt'', PStr ''2024-01-01T00:00:00Z'')]"

definition sample_document :: dict where
  "sample_document =
     [(''documentId'', PStr ''doc-1''), (''userId'', PStr ''alice''),
      (''fileName'', PStr ''bio.txt''), (''s3Key'', PStr ''users/alice/documents/1/bio.txt''),
      (''fileSize'', PInt 47), (''fileType'', PStr ''txt''),
      (''extractedText'', PStr ''The mitochondria is the powerhouse of the cell.''),
      (''createdAt'', PStr ''2024-01-01T00:00:00Z''), (''status'', PStr ''active'')]"

definition sample_store :: store where
  "sample_store =
     \<lparr>documents_tbl = [sample_document], summaries_tbl = [], flashcards_tbl = [],
      quizzes_tbl = [sample_quiz], chat_tbl = [], bucket = []\<rparr>"

definition request :: "string \<Rightarrow> string \<Rightarrow> dict \<Rightarrow> event" where
  "request user path_id b =
     \<lparr>ev_claims = [(''sub'', PStr user)], ev_path_id = path_id, ev_body = Some (PDict b)\<rparr>"

text \<open>
  A question in the shape that \<^verbatim>\<open>QUIZ_PROMPT\<close> asks the model for, and an environment
  whose model answers every prompt with five of them. The text of the reply is not
  modelled: the decoder is a table from the reply to the decoded value.
\<close>

definition prompt_question :: pyval where
  "prompt_question =
     PDict [(''question'', PStr ''Q''),
            (''options'', PList [PStr ''A'', PStr ''B'', PStr ''C'', PStr ''D'']),
            (''correctAnswer'', PInt 0),
            (''explanation'', PStr ''E'')]"

definition quiz_env :: env where
  "quiz_env =
     exact_env\<lparr>call_gpt := (\<lambda>p. Inr ''QUIZ''),
                json_loads := (\<lambda>t. if t = ''QUIZ'' then Inr (PList (replicate 5 prompt_question))
                                     else Inl JSONDecodeError)\<rparr>"

definition sample_event :: event where
  "sample_event = request ''alice'' ''quiz-1'' [(''answers'', PDict [(''0'', PInt 1)])]"



text \<open>An environment whose model answers every prompt with one fixed explanation.\<close>

definition explain_env :: env where
  "explain_env = exact_env\<lparr>call_gpt := (\<lambda>p. Inr ''EXPLAINED'')\<rparr>"

text \<open>An environment whose decoder knows one JSON text.\<close>

definition fence_env :: env where
  "fence_env =
     exact_env\<lparr>json_loads := (\<lambda>t. if t = ''[1, 2]'' then Inr (PList [PInt 1, PInt 2])
                                     else Inl JSONDecodeError)\<rparr>"

text \<open>
  An environment whose PDF reader finds two pages, and whose Word reader finds two
  paragraphs, of 50000 characters each.
\<close>

definition two_page_env :: env where
  "two_page_env =
     exact_env\<lparr>pdf_reader := (\<lambda>b. Inr [Inr (Some (replicate 50000 (CHR ''a''))),
                                         Inr (Some (replicate 50000 (CHR ''b'')))]),
                docx_paragraphs := (\<lambda>b. Inr [replicate 50000 (CHR ''a''),
                                              replicate 50000 (CHR ''b'')])\<rparr>"

text \<open>A chat table with turns of two users on one document and a turn on another.\<close>

definition chat_turn :: "string \<Rightarrow> string \<Rightarrow> string \<Rightarrow> string \<Rightarrow> dict" where
  "chat_turn chat_id document_id user t =
     [(''chatId'', PStr chat_id), (''documentId'', PStr document_id), (''userId'', PStr user),
      (''userMessage'', PStr ''Q''), (''assistantResponse'', PStr ''A''),
      (''createdAt'', PStr t)]"

definition chat_store :: store where
  "chat_store =
     sample_store\<lparr>chat_tbl :=
       [chat_turn ''c3'' ''doc-1'' ''alice'' ''3'', chat_turn ''c2'' ''doc-1'' ''bob'' ''2'',
        chat_turn ''c1'' ''doc-1'' ''alice'' ''1'', chat_turn ''c4'' ''doc-2'' ''alice'' ''4'']\<rparr>"

section \<open>Properties\<close>

subsection \<open>Grading\<close>

lemma grade_loop_spec:
  "list_all has_correct_index qs \<Longrightarrow>
   grade_loop (PDict a) k qs c rs =
     Inr (c + length (filter (spec_matches a) (enumerate k qs)),
          rs @ map (spec_detail a) (enumerate k qs))"
proof (induction qs arbitrary: k c rs)
  case Nil
  then show ?case by simp
next
  case (Cons q qs)
  from Cons.prems obtain d ci
    where q: "q = PDict d" and ci: "map_of d ''correct_answer'' = Some (PInt ci)"
    by (auto simp: has_correct_index_def split: pyval.splits option.splits)
  have rest: "list_all has_correct_index qs" using Cons.prems by simp
  show ?case
    by (simp add: q ci Cons.IH[OF rest] bind_exn_def dict_get_def subscript_def
        spec_matches_def spec_detail_def correct_index_def stored_explanation_def item_get_def
        split: option.splits)
qed

lemma float_percentage_refused:
  "0 < t \<Longrightarrow> save_quiz_attempt en s k a c t (percentage_of en c t) = Inl TypeError"
  by (simp add: save_quiz_attempt_def percentage_of_def Let_def)

text \<open>
  For a quiz with at least one question, each carrying an integer correct index, the
  loop grades as the rule says, the percentage is a \<^verbatim>\<open>float\<close>, the write of the attempt
  refuses it, and the handler answers 500 from an unchanged store.
\<close>

lemma graded_submission_fails:
  assumes body: "parse_body en ev = Inr (PDict b)"
    and answers: "item_get b ''answers'' (PDict []) = PDict a"
    and quiz: "get_quiz_by_id s (ev_path_id ev) = Some quiz"
    and owner: "py_eq (item_get quiz ''userId'' PNone) (get_user_id_from_event ev)"
    and questions: "map_of quiz ''questions'' = Some (PList qs)"
    and stored: "list_all has_correct_index qs"
    and nonempty: "qs \<noteq> []"
  shows "submit_quiz en ev s = (error_response 500 ''TypeError'', s)"
proof -
  have ne: "quiz \<noteq> []" using questions by auto
  have ans: "dict_get (PDict b) ''answers'' (PDict []) = Inr (PDict a)"
    using answers by (simp add: dict_get_def item_get_def)
  have qsub: "item_sub quiz ''questions'' = Inr (PList qs)"
    using questions by (simp add: item_sub_def)
  have loop: "grade_loop (PDict a) 0 qs 0 [] =
      Inr (length (filter (spec_matches a) (enumerate 0 qs)),
           map (spec_detail a) (enumerate 0 qs))"
    using grade_loop_spec[OF stored, of a 0 0 "[]"] by simp
  have sv: "save_quiz_attempt en s (ev_path_id ev) (PDict a)
        (length (filter (spec_matches a) (enumerate 0 qs))) (length qs)
        (percentage_of en (length (filter (spec_matches a) (enumerate 0 qs))) (length qs)) =
      Inl TypeError"
    using nonempty by (simp add: float_percentage_refused)
  show ?thesis
    unfolding submit_quiz_def
    by (simp add: body ans quiz ne owner qsub loop sv bind_exn_def catch_def Let_def
        py_len_def py_iter_def)
qed

text \<open>
  C1, evaluated. The stored quiz has two questions with correct indices 1 and 2; its
  owner submits \<^verbatim>\<open>{"answers": {"0": 1, "1": 0}}\<close>. The grading loop computes what the
  claim describes: score 1 and, per question, the submitted answer, the stored correct
  answer, the match and the stored explanation; the percentage is \<^verbatim>\<open>50.0\<close>, below the
  pass mark of 60. That percentage is a \<^verbatim>\<open>float\<close>, the write of the attempt refuses it, and \<^const>\<open>submit_quiz\<close>
  answers 500 with the message of the \<^verbatim>\<open>TypeError\<close>: it returns no score, percentage,
  verdict or detail, and stores no attempt.
\<close>

theorem graded_result_is_not_returned:
  "grade_loop (PDict [(''0'', PInt 1), (''1'', PInt 0)]) 0
       [sample_question 1, sample_question 2] 0 [] =
     Inr (1, [PDict [(''question_index'', PInt 0), (''user_answer'', PInt 1),
                     (''correct_answer'', PInt 1), (''is_correct'', PBool True),
                     (''explanation'', PStr ''E'')],
              PDict [(''question_index'', PInt 1), (''user_answer'', PInt 0),
                     (''correct_answer'', PInt 2), (''is_correct'', PBool False),
                     (''explanation'', PStr ''E'')]]) \<and>
   percentage_of exact_env 1 2 = PFloat 50 \<and>
   py_ge (percentage_of exact_env 1 2) 60 = False \<and>
   submit_quiz exact_env
       (request ''alice'' ''quiz-1'' [(''answers'', PDict [(''0'', PInt 1), (''1'', PInt 0)])])
       sample_store =
     (error_response 500 ''TypeError'', sample_store)"
  by (simp add: submit_quiz_def request_def parse_body_def item_get_def item_sub_def
      get_quiz_by_id_def get_item_def sample_store_def sample_quiz_def sample_question_def
      get_user_id_from_event_def exact_env_def dict_get_def subscript_def bind_exn_def
      catch_def py_len_def py_iter_def save_quiz_attempt_def percentage_of_def py_ge_def
      error_response_def Let_def str_nat.simps digit_char_def)

subsection \<open>Taking and submitting a quiz\<close>

lemma strip_quiz: "strip_code_fence ''QUIZ'' = ''QUIZ''"
  by (simp add: strip_code_fence_def strip_def lstrip_def rstrip_def py_isspace_def
      startswith_def endswith_def)

text \<open>
  C9, evaluated. A quiz created by \<^const>\<open>create_quiz\<close> from model output in the shape the
  quiz prompt asks for stores the correct index under \<^verbatim>\<open>correctAnswer\<close>; the grader reads
  \<^verbatim>\<open>correct_answer\<close>. Creation of a five-question quiz answers 201 and stores the five
  questions as decoded; the submission of answers for it raises \<^verbatim>\<open>KeyError\<close> at the first
  question, answers 500, and records no attempt.
\<close>

theorem created_quiz_is_not_gradable:
  "status_code (fst (create_quiz quiz_env
       (request ''alice'' ''doc-1'' [(''questionCount'', PInt 5)]) sample_store)) = 201 \<and>
   stored_quiz_field (snd (create_quiz quiz_env
       (request ''alice'' ''doc-1'' [(''questionCount'', PInt 5)]) sample_store))
     ''quiz-0001'' ''questions'' = Some (PList (replicate 5 prompt_question)) \<and>
   submit_quiz quiz_env
     (request ''alice'' ''quiz-0001''
        [(''answers'', PDict [(''0'', PInt 0), (''1'', PInt 1), (''2'', PInt 2),
                              (''3'', PInt 3), (''4'', PInt 0)])])
     (snd (create_quiz quiz_env
       (request ''alice'' ''doc-1'' [(''questionCount'', PInt 5)]) sample_store)) =
     (error_response 500 ''KeyError'',
      snd (create_quiz quiz_env
       (request ''alice'' ''doc-1'' [(''questionCount'', PInt 5)]) sample_store))"
  by (simp add: create_quiz_def submit_quiz_def quiz_env_def exact_env_def request_def
      sample_store_def sample_document_def sample_quiz_def sample_question_def
      prompt_question_def parse_body_def get_user_id_from_event_def item_get_def item_sub_def
      get_document_by_id_def get_quiz_by_id_def get_item_def put_item_def dict_get_def
      bind_exn_def catch_def py_or_def slice_prefix_def call_gpt_json_def strip_quiz
      truncate_questions_def save_quiz_def py_len_def py_iter_def subscript_def
      error_response_def stored_quiz_field_def Let_def str_nat.simps digit_char_def
      numeral_eq_Suc)

lemma questions_for_user_redacted:
  "questions_for_user qs = Inr shown \<Longrightarrow> list_all redacted shown \<and> length shown = length qs"
proof (induction qs arbitrary: shown)
  case Nil
  then show ?case by simp
next
  case (Cons q qs)
  then show ?case
    by (auto simp: bind_exn_def redacted_def split: sum.splits)
qed

text \<open>
  Retrieval for taking, for a stored quiz and its owner: unless a stored question lacks
  its text or options (a 500), the answer is 200 with one entry per stored question,
  each holding the question text and the options and nothing else.
\<close>

lemma get_quiz_hides_answers:
  assumes quiz: "get_quiz_by_id s (ev_path_id ev) = Some quiz"
    and owner: "py_eq (item_get quiz ''userId'' PNone) (get_user_id_from_event ev)"
  shows "(\<exists>e. get_quiz en ev s = (error_response 500 (exn_str e), s)) \<or>
         (\<exists>shown. get_quiz en ev s =
            (Response 200
               (PDict [(''quiz'',
                  PDict [(''quizId'', PStr (ev_path_id ev)),
                         (''title'', item_get quiz ''title'' (PStr ''Quiz'')),
                         (''questions'', PList shown),
                         (''questionCount'', PInt (int (length shown)))])]), s) \<and>
            list_all redacted shown)"
proof -
  have ne: "quiz \<noteq> []" and key: "map_of quiz ''quizId'' = Some (PStr (ev_path_id ev))"
    using quiz by (auto simp: get_quiz_by_id_def get_item_def find_Some_iff)
  show ?thesis
    using questions_for_user_redacted
    by (auto simp: get_quiz_def quiz ne owner key item_sub_def bind_exn_def catch_def Let_def
        split: sum.splits)
qed

text \<open>
  C4, evaluated. On the stored two-question quiz, retrieval by its owner answers 200 with
  the two questions reduced to text and options, as the claim says. The owner's
  submission of \<^verbatim>\<open>{"answers": {"0": 1}}\<close> is graded, its percentage \<^verbatim>\<open>50.0\<close> is a \<^verbatim>\<open>float\<close>
  that the write of the attempt refuses, and the answer is 500 with the message of the
  \<^verbatim>\<open>TypeError\<close>: the correct answers and explanations the claim promises are not returned.
\<close>

theorem submission_reveals_nothing:
  "get_quiz exact_env sample_event sample_store =
     (Response 200
        (PDict [(''quiz'',
           PDict [(''quizId'', PStr ''quiz-1''),
                  (''title'', PStr ''Quiz''),
                  (''questions'',
                   PList [PDict [(''question'', PStr ''Q''),
                                 (''options'', PList [PStr ''A'', PStr ''B'', PStr ''C'', PStr ''D''])],
                          PDict [(''question'', PStr ''Q''),
                                 (''options'', PList [PStr ''A'', PStr ''B'', PStr ''C'', PStr ''D''])]]),
                  (''questionCount'', PInt 2)])]), sample_store) \<and>
   submit_quiz exact_env sample_event sample_store =
     (Response 500 (PDict [(''error'', PStr ''TypeError'')]), sample_store)"
  by (simp add: get_quiz_def submit_quiz_def sample_event_def request_def sample_store_def
      sample_quiz_def sample_question_def exact_env_def parse_body_def
      get_user_id_from_event_def item_get_def item_sub_def get_quiz_by_id_def get_item_def
      dict_get_def subscript_def bind_exn_def catch_def py_len_def py_iter_def
      save_quiz_attempt_def percentage_of_def error_response_def
      Let_def str_nat.simps digit_char_def)

subsection \<open>What creation stores\<close>


lemma count_never_zero:
  "py_or (py_or (item_get b ''questionCount'' PNone) (item_get b ''numQuestions'' PNone))
     (PInt 10) \<noteq> PInt 0"
  by (auto simp: py_or_def)







subsection \<open>The access guard\<close>

lemma get_item_nonempty: "get_item tbl k v = Some it \<Longrightarrow> it \<noteq> []"
  by (auto simp: get_item_def find_Some_iff)

lemmas guard_defs = reads_body_def early_rejection_def missing_message_def refused_def
  not_found_def access_denied_def bad_request_def bind_exn_def catch_def dict_get_def Let_def

lemma guard_missing:
  assumes miss: "target opn s (ev_path_id ev) = None"
  shows "run opn en ev s = (refused opn en ev (error_response 404 (missing_message opn)), s)"
proof (cases opn)
  case Summarize
  with miss have t: "get_document_by_id s (ev_path_id ev) = None" by simp
  show ?thesis
    by (auto simp: Summarize summarize_document_def t guard_defs item_get_def[symmetric]
        split: sum.splits pyval.splits)
next
  case GetSummary
  with miss have t: "get_document_by_id s (ev_path_id ev) = None" by simp
  show ?thesis by (simp add: GetSummary get_summary_def t guard_defs)
next
  case CreateFlashcards
  with miss have t: "get_document_by_id s (ev_path_id ev) = None" by simp
  show ?thesis
    by (auto simp: CreateFlashcards create_flashcards_def t guard_defs item_get_def[symmetric]
        split: sum.splits pyval.splits)
next
  case GetFlashcards
  with miss have t: "get_document_by_id s (ev_path_id ev) = None" by simp
  show ?thesis by (simp add: GetFlashcards get_flashcards_def t guard_defs)
next
  case CreateQuiz
  with miss have t: "get_document_by_id s (ev_path_id ev) = None" by simp
  show ?thesis
    by (auto simp: CreateQuiz create_quiz_def t guard_defs item_get_def[symmetric]
        split: sum.splits pyval.splits)
next
  case GetQuiz
  with miss have t: "get_quiz_by_id s (ev_path_id ev) = None" by simp
  show ?thesis by (simp add: GetQuiz get_quiz_def t guard_defs)
next
  case SubmitQuiz
  with miss have t: "get_quiz_by_id s (ev_path_id ev) = None" by simp
  show ?thesis
    by (auto simp: SubmitQuiz submit_quiz_def t guard_defs item_get_def[symmetric]
        split: sum.splits pyval.splits)
next
  case Chat
  with miss have t: "get_document_by_id s (ev_path_id ev) = None" by simp
  show ?thesis
    by (auto simp: Chat chat_with_document_def t guard_defs item_get_def[symmetric]
        split: sum.splits pyval.splits)
next
  case ChatHistory
  with miss have t: "get_document_by_id s (ev_path_id ev) = None" by simp
  show ?thesis by (simp add: ChatHistory get_chat_history_def t guard_defs)
next
  case GetDocument
  with miss have t: "get_document_by_id s (ev_path_id ev) = None" by simp
  show ?thesis by (simp add: GetDocument get_document_def t guard_defs)
next
  case DeleteDocument
  with miss have t: "get_document_by_id s (ev_path_id ev) = None" by simp
  show ?thesis by (simp add: DeleteDocument delete_document_def t guard_defs)
qed

lemma guard_other_owner:
  assumes found: "target opn s (ev_path_id ev) = Some item"
    and other: "\<not> py_eq (item_get item ''userId'' PNone) (get_user_id_from_event ev)"
  shows "run opn en ev s = (refused opn en ev (error_response 403 ''Access denied''), s)"
proof -
  have ne: "item \<noteq> []"
    using found get_item_nonempty
    by (cases opn) (auto simp: get_document_by_id_def get_quiz_by_id_def)
  show ?thesis
  proof (cases opn)
  case Summarize
  with found have t: "get_document_by_id s (ev_path_id ev) = Some item" by simp
  show ?thesis
    by (auto simp: Summarize summarize_document_def t ne other guard_defs item_get_def[symmetric]
        split: sum.splits pyval.splits)
next
  case GetSummary
  with found have t: "get_document_by_id s (ev_path_id ev) = Some item" by simp
  show ?thesis by (simp add: GetSummary get_summary_def t ne other guard_defs)
next
  case CreateFlashcards
  with found have t: "get_document_by_id s (ev_path_id ev) = Some item" by simp
  show ?thesis
    by (auto simp: CreateFlashcards create_flashcards_def t ne other guard_defs item_get_def[symmetric]
        split: sum.splits pyval.splits)
next
  case GetFlashcards
  with found have t: "get_document_by_id s (ev_path_id ev) = Some item" by simp
  show ?thesis by (simp add: GetFlashcards get_flashcards_def t ne other guard_defs)
next
  case CreateQuiz
  with found have t: "get_document_by_id s (ev_path_id ev) = Some item" by simp
  show ?thesis
    by (auto simp: CreateQuiz create_quiz_def t ne other guard_defs item_get_def[symmetric]
        split: sum.splits pyval.splits)
next
  case GetQuiz
  with found have t: "get_quiz_by_id s (ev_path_id ev) = Some item" by simp
  show ?thesis by (simp add: GetQuiz get_quiz_def t ne other guard_defs)
next
  case SubmitQuiz
  with found have t: "get_quiz_by_id s (ev_path_id ev) = Some item" by simp
  show ?thesis
    by (auto simp: SubmitQuiz submit_quiz_def t ne other guard_defs item_get_def[symmetric]
        split: sum.splits pyval.splits)
next
  case Chat
  with found have t: "get_document_by_id s (ev_path_id ev) = Some item" by simp
  show ?thesis
    by (auto simp: Chat chat_with_document_def t ne other guard_defs item_get_def[symmetric]
        split: sum.splits pyval.splits)
next
  case ChatHistory
  with found have t: "get_document_by_id s (ev_path_id ev) = Some item" by simp
  show ?thesis by (simp add: ChatHistory get_chat_history_def t ne other guard_defs)
next
  case GetDocument
  with found have t: "get_document_by_id s (ev_path_id ev) = Some item" by simp
  show ?thesis by (simp add: GetDocument get_document_def t ne other guard_defs)
next
  case DeleteDocument
  with found have t: "get_document_by_id s (ev_path_id ev) = Some item" by simp
  show ?thesis by (simp add: DeleteDocument delete_document_def t ne other guard_defs)
  qed
qed

text \<open>
  C5, as amended. For each of the eleven document-scoped operations and every caller:
  when the target entity does not exist the operation answers 404, and when it exists
  with a stored owner other than the caller it answers 403, unless the request was
  already rejected for its body before the lookup (500 for a body that does not decode
  to an object, in the five operations that read one; 400 for a chat request without a
  question). In each of these cases the response is an error message only and the store
  is left as it was.
\<close>

theorem access_guard:
  "(target opn s (ev_path_id ev) = None \<longrightarrow>
      run opn en ev s = (refused opn en ev (error_response 404 (missing_message opn)), s)) \<and>
   (\<forall>item. target opn s (ev_path_id ev) = Some item \<and>
            \<not> py_eq (item_get item ''userId'' PNone) (get_user_id_from_event ev) \<longrightarrow>
      run opn en ev s = (refused opn en ev (error_response 403 ''Access denied''), s))"
  using guard_missing guard_other_owner by blast

theorem access_guard_witness:
  "run DeleteDocument exact_env (request ''alice'' ''doc-9'' []) sample_store =
     (error_response 404 ''Document not found'', sample_store) \<and>
   run SubmitQuiz exact_env (request ''bob'' ''quiz-1'' [(''answers'', PDict [(''0'', PInt 1)])])
     sample_store = (error_response 403 ''Access denied'', sample_store)"
  using access_guard [of DeleteDocument sample_store "request ''alice'' ''doc-9'' []" exact_env]
    access_guard [of SubmitQuiz sample_store
      "request ''bob'' ''quiz-1'' [(''answers'', PDict [(''0'', PInt 1)])]" exact_env]
  by (simp add: refused_def early_rejection_def reads_body_def missing_message_def
      request_def sample_store_def sample_document_def sample_quiz_def exact_env_def
      parse_body_def get_user_id_from_event_def item_get_def get_document_by_id_def
      get_quiz_by_id_def get_item_def)

text \<open>
  C5 as stated fails: a chat request without a question on a document that does not
  exist is answered 400, not 404.
\<close>

theorem not_found_counterexample:
  "target Chat sample_store ''doc-9'' = None \<and>
   run Chat exact_env (request ''alice'' ''doc-9'' []) sample_store =
     (error_response 400 ''Question/message is required'', sample_store)"
  by (simp add: chat_with_document_def bad_request_def bind_exn_def catch_def dict_get_def
      py_or_def Let_def request_def sample_store_def sample_document_def exact_env_def
      parse_body_def get_document_by_id_def get_item_def)

subsection \<open>Chat history\<close>

lemma query_recent_subset:
  "set (query_recent tbl d n) \<subseteq> {it \<in> set tbl. in_document_index d it}"
  by (auto simp: query_recent_def dest: in_set_takeD)

lemma window_newer:
  assumes "x \<in> set (query_recent tbl d n)" and "y \<in> set (beyond_window tbl d n)"
  shows "created_at y \<le> created_at x"
proof -
  define zs where "zs = sort_key created_at (filter (in_document_index d) tbl)"
  define k where "k = length zs - n"
  have srt: "sorted (map created_at (take k zs @ drop k zs))"
    by (simp add: zs_def)
  have x: "x \<in> set (drop k zs)"
    using assms(1) by (simp add: query_recent_def zs_def[symmetric] take_rev k_def)
  have y: "y \<in> set (take k zs)"
    using assms(2) by (simp add: beyond_window_def zs_def[symmetric] drop_rev k_def)
  from srt x y show ?thesis
    by (auto simp: sorted_append simp del: append_take_drop_id)
qed

lemma indexed_created_at:
  "in_document_index d it \<Longrightarrow> \<exists>t. map_of it ''createdAt'' = Some (PStr t)"
  by (cases "map_of it ''createdAt''"; cases "the (map_of it ''createdAt'')")
     (auto simp: in_document_index_def)

lemma sorted_by_created_at_ok:
  assumes "set its \<subseteq> {it. in_document_index d it}"
  shows "sorted_by_created_at its = Inr (sort_key created_at its)"
proof -
  have "list_all (\<lambda>it. case map_of it ''createdAt'' of
                           None \<Rightarrow> True | Some (PStr t) \<Rightarrow> True | Some _ \<Rightarrow> False) its"
    unfolding list_all_iff
  proof
    fix it assume "it \<in> set its"
    with assms have "in_document_index d it" by auto
    then obtain t where "map_of it ''createdAt'' = Some (PStr t)"
      using indexed_created_at by blast
    then show "case map_of it ''createdAt'' of
                 None \<Rightarrow> True | Some (PStr t) \<Rightarrow> True | Some _ \<Rightarrow> False"
      by simp
  qed
  then show ?thesis by (simp add: sorted_by_created_at_def)
qed

lemma sample_timestamps_order: "(''1''::string) \<le> ''3''" "\<not> (''3''::string) \<le> ''1''" "(''1''::string) \<le> ''2''"
  "(''2''::string) \<le> ''3''" "\<not> (''3''::string) \<le> ''2''" "\<not> (''2''::string) \<le> ''1''"
  by (simp_all add: less_eq_char_def)

text \<open>
  C7. For a document and its owner, \<^const>\<open>get_chat_history\<close> answers 200 with at most 20
  turns, in ascending order of timestamp; the turns are exactly those of the window of
  the 20 most recent turns of the document whose stored owner is the caller, so a turn
  of another user is never returned; every turn of the window is stored under the
  document, and is at least as recent as every turn of the document outside the window.
\<close>

theorem chat_history_window:
  assumes doc: "get_document_by_id s (ev_path_id ev) = Some document"
    and owner: "py_eq (item_get document ''userId'' PNone) (get_user_id_from_event ev)"
  shows "\<exists>history.
           get_chat_history en ev s =
             (Response 200 (PDict [(''chatHistory'', PList (map PDict history)),
                                   (''count'', PInt (int (length history)))]), s) \<and>
           length history \<le> 20 \<and>
           sorted (map created_at history) \<and>
           set history =
             {it \<in> set (query_recent (chat_tbl s) (ev_path_id ev) 20).
                py_eq (item_get it ''userId'' PNone) (get_user_id_from_event ev)} \<and>
           (\<forall>x \<in> set (query_recent (chat_tbl s) (ev_path_id ev) 20).
              x \<in> set (chat_tbl s) \<and> map_of x ''documentId'' = Some (PStr (ev_path_id ev)) \<and>
              (\<forall>y \<in> set (beyond_window (chat_tbl s) (ev_path_id ev) 20).
                 created_at y \<le> created_at x))"
proof -
  let ?u = "get_user_id_from_event ev"
  let ?w = "query_recent (chat_tbl s) (ev_path_id ev) 20"
  let ?mine = "filter (\<lambda>it. py_eq (item_get it ''userId'' PNone) ?u) ?w"
  let ?h = "sort_key created_at ?mine"
  have ne: "document \<noteq> []"
    using doc by (auto simp: get_document_by_id_def get_item_def find_Some_iff)
  have sub: "set ?mine \<subseteq> {it. in_document_index (ev_path_id ev) it}"
    using query_recent_subset by fastforce
  have hist: "get_chat_history_by_document s (ev_path_id ev) ?u 20 = Inr ?h"
    by (simp add: get_chat_history_by_document_def sorted_by_created_at_ok[OF sub])
  have resp: "get_chat_history en ev s =
             (Response 200 (PDict [(''chatHistory'', PList (map PDict ?h)),
                                   (''count'', PInt (int (length ?h)))]), s)"
    by (simp add: get_chat_history_def doc ne owner hist bind_exn_def catch_def Let_def)
  have len: "length ?h \<le> 20"
  proof -
    have "length ?mine \<le> length ?w" by (rule length_filter_le)
    also have "\<dots> \<le> 20" by (simp add: query_recent_def)
    finally show ?thesis by simp
  qed
  have srt: "sorted (map created_at ?h)" by simp
  have mem: "set ?h = {it \<in> set ?w. py_eq (item_get it ''userId'' PNone) ?u}"
    by auto
  have win: "\<forall>x \<in> set ?w.
              x \<in> set (chat_tbl s) \<and> map_of x ''documentId'' = Some (PStr (ev_path_id ev)) \<and>
              (\<forall>y \<in> set (beyond_window (chat_tbl s) (ev_path_id ev) 20).
                 created_at y \<le> created_at x)"
    using query_recent_subset window_newer
    by (fastforce simp: in_document_index_def)
  from resp len srt mem win show ?thesis by blast
qed

theorem chat_history_window_witness:
  "get_chat_history exact_env (request ''alice'' ''doc-1'' []) chat_store =
     (Response 200
        (PDict [(''chatHistory'',
                 PList [PDict (chat_turn ''c1'' ''doc-1'' ''alice'' ''1''),
                        PDict (chat_turn ''c3'' ''doc-1'' ''alice'' ''3'')]),
                (''count'', PInt 2)]), chat_store)"
  using chat_history_window [of chat_store "request ''alice'' ''doc-1'' []" sample_document
      exact_env]
  by (simp add: get_chat_history_def get_chat_history_by_document_def query_recent_def
      sorted_by_created_at_def in_document_index_def created_at_def chat_store_def
      chat_turn_def request_def sample_store_def sample_document_def exact_env_def
      get_user_id_from_event_def item_get_def get_document_by_id_def get_item_def
      bind_exn_def catch_def Let_def sample_timestamps_order)

subsection \<open>The length check of explanations\<close>

text \<open>
  C10. For a request whose body decodes to an object, with \<open>text\<close> the value of its
  \<^verbatim>\<open>text\<close> field or else of its \<^verbatim>\<open>concept\<close> field: a non-empty text of at most 5000
  characters, so also one of exactly 5000, passes both checks, the model is called on it
  and its explanation is answered with 200 (a 500 only when the level is unhashable or the
  model call fails); the answer is 400 \<^verbatim>\<open>Text too long\<close> exactly when the length is
  greater than 5000; an empty or absent text is answered 400
  \<^verbatim>\<open>Text or concept is required\<close>; and both rejections are the same whatever the model
  would have answered, so they precede any model call.
\<close>

theorem explain_length_boundary:
  assumes body: "parse_body en ev = Inr (PDict b)"
  shows "(\<forall>t. resolved_text b = PStr t \<and> t \<noteq> [] \<and> length t \<le> 5000 \<longrightarrow>
            explain_concept en ev =
              (case level_preset (item_get b ''level'' (PStr ''eli5'')) of
                 Inl e \<Rightarrow> error_response 500 (exn_str e)
               | Inr preset \<Rightarrow>
                   (case call_gpt en
                           (ExplainPrompt preset (PStr t)
                              (item_get b ''language'' (PStr ''Vietnamese''))) of
                      Inl e \<Rightarrow> error_response 500 (exn_str e)
                    | Inr explanation \<Rightarrow>
                        Response 200
                          (PDict [(''originalText'', PStr t),
                                  (''level'', item_get b ''level'' (PStr ''eli5'')),
                                  (''explanation'', PStr explanation)])))) \<and>
         (explain_concept en ev = error_response 400 ''Text too long'' \<longleftrightarrow>
            (\<exists>n. py_len (resolved_text b) = Inr n \<and> 5000 < n)) \<and>
         (\<not> truthy (resolved_text b) \<longrightarrow>
            explain_concept en ev = error_response 400 ''Text or concept is required'') \<and>
         (\<not> truthy (resolved_text b) \<or> (\<exists>n. py_len (resolved_text b) = Inr n \<and> 5000 < n) \<longrightarrow>
            (\<forall>f. explain_concept (en\<lparr>call_gpt := f\<rparr>) ev = explain_concept en ev))"
proof -
  have "\<And>f. parse_body (en\<lparr>call_gpt := f\<rparr>) ev = parse_body en ev"
    by (simp add: parse_body_def split: option.splits pyval.splits)
  with body have body': "\<And>f. parse_body (en\<lparr>call_gpt := f\<rparr>) ev = Inr (PDict b)"
    by simp
  have gets: "\<And>k d. dict_get (PDict b) k d = Inr (item_get b k d)"
    by (simp add: dict_get_def item_get_def)
  have long: "\<And>n. py_len (resolved_text b) = Inr n \<Longrightarrow> 5000 < n \<Longrightarrow> truthy (resolved_text b)"
    by (cases "resolved_text b") (auto simp: py_len_def)
  show ?thesis
    using long
    by (auto simp: explain_concept_def body body' gets resolved_text_def[symmetric]
        bind_exn_def Let_def py_len_def error_response_def split: sum.splits)
qed

theorem explain_length_boundary_witness:
  "explain_concept explain_env
     (request ''alice'' [] [(''text'', PStr (replicate 5000 (CHR ''a'')))]) =
     Response 200 (PDict [(''originalText'', PStr (replicate 5000 (CHR ''a''))),
                          (''level'', PStr ''eli5''),
                          (''explanation'', PStr ''EXPLAINED'')]) \<and>
   explain_concept explain_env
     (request ''alice'' [] [(''concept'', PStr (replicate 5001 (CHR ''a'')))]) =
     error_response 400 ''Text too long'' \<and>
   explain_concept explain_env (request ''alice'' [] []) =
     error_response 400 ''Text or concept is required''"
  using explain_length_boundary [of explain_env
      "request ''alice'' [] [(''text'', PStr (replicate 5000 (CHR ''a'')))]"
      "[(''text'', PStr (replicate 5000 (CHR ''a'')))]"]
    explain_length_boundary [of explain_env
      "request ''alice'' [] [(''concept'', PStr (replicate 5001 (CHR ''a'')))]"
      "[(''concept'', PStr (replicate 5001 (CHR ''a'')))]"]
    explain_length_boundary [of explain_env "request ''alice'' [] []" "[]"]
  by (simp add: resolved_text_def py_or_def item_get_def parse_body_def request_def
      explain_env_def exact_env_def level_preset_def py_len_def)

subsection \<open>Code fences around a reply\<close>

lemma not_space_backtick: "\<not> py_isspace (CHR 0x60)"
  by (simp add: py_isspace_def)

lemma not_space_j: "\<not> py_isspace (CHR ''j'')"
  by (simp add: py_isspace_def)

lemma lstrip_pad: "list_all py_isspace w \<Longrightarrow> lstrip (w @ s) = lstrip s"
  by (simp add: lstrip_def list_all_iff dropWhile_append2)

lemma rstrip_pad:
  assumes "list_all py_isspace w"
  shows "rstrip (s @ w) = rstrip s"
proof -
  have "dropWhile py_isspace (rev w @ rev s) = dropWhile py_isspace (rev s)"
    using assms by (intro dropWhile_append2) (simp add: list_all_iff)
  then show ?thesis by (simp add: rstrip_def)
qed

lemma lstrip_nonspace: "\<not> py_isspace c \<Longrightarrow> lstrip (c # s) = c # s"
  by (simp add: lstrip_def)

lemma rstrip_Cons: "\<not> py_isspace c \<Longrightarrow> rstrip (c # s) = c # rstrip s"
  by (simp add: rstrip_def dropWhile_append3)

lemma rstrip_nonspace: "\<not> py_isspace c \<Longrightarrow> rstrip (s @ [c]) = s @ [c]"
  by (simp add: rstrip_def)

lemma rstrip_idem: "rstrip (rstrip s) = rstrip s"
  by (simp add: rstrip_def)

lemma lstrip_head: "lstrip s = c # l \<Longrightarrow> \<not> py_isspace c"
  using hd_dropWhile[of py_isspace s] by (auto simp: lstrip_def)

lemma strip_idem: "strip (strip s) = strip s"
proof (cases "lstrip s")
  case Nil
  then have "strip s = []" by (simp add: strip_def rstrip_def)
  moreover have "strip [] = []" by (simp add: strip_def lstrip_def rstrip_def)
  ultimately show ?thesis by simp
next
  case (Cons c l)
  then have "\<not> py_isspace c" by (rule lstrip_head)
  then show ?thesis
    by (simp add: strip_def Cons rstrip_Cons lstrip_nonspace rstrip_idem)
qed

lemma strip_pad:
  assumes "list_all py_isspace w1" and "list_all py_isspace w2"
  shows "strip (w1 @ s @ w2) = strip s"
proof (cases "list_all py_isspace s")
  case True
  then have "lstrip s = []" and "lstrip (s @ w2) = []"
    using assms(2) by (auto simp: lstrip_def list_all_iff)
  then show ?thesis by (simp add: strip_def lstrip_pad assms(1))
next
  case False
  then obtain x where "x \<in> set s" and "\<not> py_isspace x" by (auto simp: list_all_iff)
  then have "lstrip (s @ w2) = lstrip s @ w2"
    by (simp add: lstrip_def dropWhile_append1)
  then show ?thesis by (simp add: strip_def lstrip_pad assms rstrip_pad)
qed

lemma strip_fenced:
  assumes "list_all py_isspace w0" and "list_all py_isspace w3"
  shows "strip (w0 @ CHR 0x60 # m @ CHR 0x60 # w3) = CHR 0x60 # m @ [CHR 0x60]"
proof -
  have "rstrip ((CHR 0x60 # m @ [CHR 0x60]) @ w3) = rstrip (CHR 0x60 # m @ [CHR 0x60])"
    using assms(2) by (rule rstrip_pad)
  moreover have "rstrip ((CHR 0x60 # m) @ [CHR 0x60]) = (CHR 0x60 # m) @ [CHR 0x60]"
    using not_space_backtick by (rule rstrip_nonspace)
  ultimately have "rstrip (CHR 0x60 # m @ CHR 0x60 # w3) = CHR 0x60 # m @ [CHR 0x60]"
    by simp
  then show ?thesis
    by (simp add: strip_def lstrip_pad assms(1) lstrip_nonspace not_space_backtick)
qed

lemma startswith_first: "startswith p (c # cs) \<Longrightarrow> startswith p [c]"
  by (cases p) (auto simp: startswith_def)

lemma endswith_append: "endswith (s @ t) t"
  by (simp add: endswith_def)

lemma endswith_last: "endswith p (cs @ [c]) \<Longrightarrow> endswith p [c]"
proof -
  assume e: "endswith p (cs @ [c])"
  then have "p = take (length p - length (cs @ [c])) p @ cs @ [c]"
    by (metis append_take_drop_id endswith_def)
  then obtain q where "p = (q @ cs) @ [c]" by (metis append_assoc)
  then show ?thesis using endswith_append[of "q @ cs" "[c]"] by simp
qed

lemma no_json_tag:
  assumes w1: "list_all py_isspace w1" and w2: "list_all py_isspace w2"
    and nj: "\<not> startswith (strip s) ''j''"
  shows "take 4 (w1 @ s @ w2 @ [CHR 0x60, CHR 0x60, CHR 0x60]) \<noteq> ''json''"
proof (cases w1)
  case (Cons c w)
  with w1 have "py_isspace c" by simp
  with not_space_j have "c \<noteq> CHR ''j''" by auto
  then show ?thesis by (simp add: Cons)
next
  case Nil
  show ?thesis
  proof (cases s)
    case (Cons c s')
    have "c \<noteq> CHR ''j''"
    proof
      assume c: "c = CHR ''j''"
      have "strip s = CHR ''j'' # rstrip s'"
        by (simp add: Cons c strip_def lstrip_nonspace rstrip_Cons not_space_j)
      with nj show False by (simp add: startswith_def)
    qed
    then show ?thesis by (simp add: Nil Cons)
  next
    case s: Nil
    show ?thesis
    proof (cases w2)
      case (Cons c w)
      with w2 have "py_isspace c" by simp
      with not_space_j have "c \<noteq> CHR ''j''" by auto
      then show ?thesis by (simp add: Nil s Cons)
    next
      case w: Nil
      show ?thesis by (simp add: Nil s w)
    qed
  qed
qed

lemma unfenced:
  assumes "fence_free (strip P)"
  shows "strip_code_fence P = strip P"
proof -
  have a: "\<not> startswith (strip P) ''```json''" and b: "\<not> startswith (strip P) ''```''"
    using assms startswith_first[of "strip P" "CHR 0x60"] by (auto simp: fence_free_def)
  have c: "\<not> endswith (strip P) ''```''"
    using assms endswith_last[of "strip P" "''``''" "CHR 0x60"] by (auto simp: fence_free_def)
  show ?thesis by (simp add: strip_code_fence_def a b c strip_idem)
qed

lemma json_fenced:
  assumes "list_all py_isspace w0" and "list_all py_isspace w1"
    and "list_all py_isspace w2" and "list_all py_isspace w3"
  shows "strip_code_fence (w0 @ ''```json'' @ w1 @ P @ w2 @ ''```'' @ w3) = strip P"
proof -
  define body where "body = w1 @ P @ w2"
  have r1: "strip (w0 @ ''```json'' @ w1 @ P @ w2 @ ''```'' @ w3) =
      ''```json'' @ body @ ''```''"
    using strip_fenced[OF assms(1) assms(4), of "''``json'' @ body @ ''``''"]
    by (simp add: body_def)
  have e: "endswith (body @ ''```'') ''```''" by (rule endswith_append)
  have "strip_code_fence (w0 @ ''```json'' @ w1 @ P @ w2 @ ''```'' @ w3) = strip body"
    unfolding strip_code_fence_def r1 using e by (simp add: startswith_def)
  then show ?thesis by (simp add: body_def strip_pad assms)
qed

lemma bare_fenced:
  assumes "list_all py_isspace w0" and "list_all py_isspace w1"
    and "list_all py_isspace w2" and "list_all py_isspace w3"
    and "fence_free (strip P)"
  shows "strip_code_fence (w0 @ ''```'' @ w1 @ P @ w2 @ ''```'' @ w3) = strip P"
proof -
  define body where "body = w1 @ P @ w2"
  define r2 where "r2 = body @ ''```''"
  define r1 where "r1 = ''```'' @ r2"
  have s1: "strip (w0 @ ''```'' @ w1 @ P @ w2 @ ''```'' @ w3) = r1"
    using strip_fenced[OF assms(1) assms(4), of "''``'' @ body @ ''``''"]
    by (simp add: body_def r1_def r2_def)
  have "take 4 r2 \<noteq> ''json''"
    using no_json_tag[OF assms(2) assms(3), of P] assms(5)
    by (simp add: body_def r2_def fence_free_def)
  then have a: "\<not> startswith r1 ''```json''"
    by (simp add: startswith_def r1_def numeral_eq_Suc)
  have b: "startswith r1 ''```''" and d: "drop 3 r1 = r2"
    by (simp_all add: startswith_def r1_def)
  have e: "endswith r2 ''```''" unfolding r2_def by (rule endswith_append)
  have t: "take (length r2 - 3) r2 = body" by (simp add: r2_def)
  have "strip_code_fence (w0 @ ''```'' @ w1 @ P @ w2 @ ''```'' @ w3) = strip body"
    unfolding strip_code_fence_def s1 by (simp add: a b d e t)
  then show ?thesis by (simp add: body_def strip_pad assms)
qed

text \<open>Every text delimited as a JSON text is, is free of fences.\<close>

lemma json_delimited_fence_free:
  assumes "json_delimited p"
  shows "fence_free p"
proof -
  from assms obtain c q where p: "p = c # q" by (cases p) (auto simp: json_delimited_def)
  then obtain q' d where p': "p = q' @ [d]" by (metis list.distinct(1) rev_exhaust)
  from assms p have c: "c \<noteq> CHR 0x60" "c \<noteq> CHR ''j''" by (auto simp: json_delimited_def)
  from assms p' have d: "d \<noteq> CHR 0x60" by (auto simp: json_delimited_def)
  have "\<not> startswith p [CHR 0x60]" and "\<not> startswith p ''j''"
    using c by (simp_all add: p startswith_def)
  moreover have "\<not> endswith p [CHR 0x60]"
    using d by (simp add: p' endswith_def)
  ultimately show ?thesis by (simp add: fence_free_def)
qed

text \<open>
  C6. Let \<open>P\<close> be a payload whose trimmed text is free of fences, as every JSON text is,
  and let \<open>w0\<close>, \<open>w1\<close>, \<open>w2\<close>, \<open>w3\<close> be runs of whitespace, possibly empty. Whether the
  model replies \<open>P\<close> itself, \<open>P\<close> in a \<^verbatim>\<open>```json\<close> fence or \<open>P\<close> in a bare \<^verbatim>\<open>```\<close> fence, with
  the whitespace around the fence and around the payload, \<^const>\<open>call_gpt_json\<close> hands the
  same text, the trimmed \<open>P\<close>, to the decoder and so returns the same decoded value or
  the same decoding error.
\<close>

theorem fenced_reply_decodes_alike:
  assumes "list_all py_isspace w0" and "list_all py_isspace w1"
    and "list_all py_isspace w2" and "list_all py_isspace w3"
    and "fence_free (strip P)"
  shows "call_gpt_json (replying en (w0 @ ''```json'' @ w1 @ P @ w2 @ ''```'' @ w3)) q =
           call_gpt_json (replying en P) q \<and>
         call_gpt_json (replying en (w0 @ ''```'' @ w1 @ P @ w2 @ ''```'' @ w3)) q =
           call_gpt_json (replying en P) q \<and>
         call_gpt_json (replying en P) q = json_loads en (strip P)"
  using json_fenced[OF assms(1-4)] bare_fenced[OF assms] unfenced[OF assms(5)]
  by (simp add: call_gpt_json_def replying_def)

theorem fenced_reply_decodes_alike_witness:
  "call_gpt_json
     (replying fence_env
        ('' '' @ ''```json'' @ [CHR 0x0A] @ ''[1, 2]'' @ [CHR 0x0A] @ ''```'' @ [CHR 0x0A]))
     (SummarizePrompt PNone PNone) = Inr (PList [PInt 1, PInt 2]) \<and>
   call_gpt_json
     (replying fence_env
        ('' '' @ ''```'' @ [CHR 0x0A] @ ''[1, 2]'' @ [CHR 0x0A] @ ''```'' @ [CHR 0x0A]))
     (SummarizePrompt PNone PNone) = Inr (PList [PInt 1, PInt 2]) \<and>
   call_gpt_json (replying fence_env ''[1, 2]'') (SummarizePrompt PNone PNone) =
     Inr (PList [PInt 1, PInt 2])"
  using fenced_reply_decodes_alike [of "'' ''" "[CHR 0x0A]" "[CHR 0x0A]" "[CHR 0x0A]"
      "''[1, 2]''" fence_env "SummarizePrompt PNone PNone"]
  by (simp add: fence_env_def exact_env_def fence_free_def strip_def lstrip_def rstrip_def
      py_isspace_def startswith_def endswith_def)

subsection \<open>The bound on extracted text\<close>

lemma truncate_text_bound: "0 \<le> m \<Longrightarrow> int (length (truncate_text t m)) \<le> m"
  by (simp add: truncate_text_def py_slice_to_def)

lemma pdf_loop_bound:
  "pdf_loop ps m acc (int (sum_list (map length acc))) = Inr out \<Longrightarrow>
   int (sum_list (map length acc)) \<le> m \<Longrightarrow> int (sum_list (map length out)) \<le> m"
proof (induction ps arbitrary: acc)
  case Nil
  then show ?case by simp
next
  case (Cons p ps)
  from Cons.prems(1) obtain t where p: "p = Inr t" by (cases p) auto
  define page where "page = (case t of None \<Rightarrow> [] | Some s \<Rightarrow> s)"
  show ?case
  proof (cases "int (sum_list (map length acc)) + int (length page) > m")
    case True
    with Cons.prems(1) have "out = acc @ [py_slice_to (m - int (sum_list (map length acc))) page]"
      by (simp add: p page_def Let_def)
    with Cons.prems(2) show ?thesis by (simp add: py_slice_to_def)
  next
    case False
    with Cons.prems(1) have
      "pdf_loop ps m (acc @ [page]) (int (sum_list (map length (acc @ [page])))) = Inr out"
      by (simp add: p page_def Let_def)
    moreover from False have "int (sum_list (map length (acc @ [page]))) \<le> m" by simp
    ultimately show ?thesis by (rule Cons.IH)
  qed
qed

text \<open>
  What the loop does bound: the characters of the page texts, without the separators
  that \<^const>\<open>join_nl\<close> puts between them.
\<close>

lemma pdf_pages_bound:
  assumes "0 \<le> m"
  shows "\<exists>parts. extract_text_from_pdf en blob m = join_nl parts \<and>
           int (sum_list (map length parts)) \<le> m"
proof (cases "pdf_reader en blob")
  case (Inl e)
  then have "extract_text_from_pdf en blob m = join_nl []"
    by (simp add: extract_text_from_pdf_def)
  with assms show ?thesis by (intro exI[of _ "[]"]) simp
next
  case (Inr pages)
  show ?thesis
  proof (cases "pdf_loop pages m [] 0")
    case (Inl e)
    then have "extract_text_from_pdf en blob m = join_nl []"
      by (simp add: extract_text_from_pdf_def Inr)
    with assms show ?thesis by (intro exI[of _ "[]"]) simp
  next
    case out: (Inr out)
    then have "extract_text_from_pdf en blob m = join_nl out"
      by (simp add: extract_text_from_pdf_def Inr)
    moreover have "int (sum_list (map length out)) \<le> m"
      using pdf_loop_bound[of pages m "[]" out] out assms by simp
    ultimately show ?thesis by blast
  qed
qed

text \<open>
  An unknown extension gives the empty text, and the paths of Word and plain-text files
  cut the final text to the bound.
\<close>

lemma unknown_extension:
  "last_dot_part (lower file_name) \<notin> set [''pdf'', ''docx'', ''doc'', ''txt'', ''text''] \<Longrightarrow>
   extract_text_from_file en blob file_name m = Inr []"
  by (simp add: extract_text_from_file_def Let_def)

lemma known_extension_bound:
  assumes "0 \<le> m" and "last_dot_part (lower file_name) \<in> set [''docx'', ''doc'', ''txt'', ''text'']"
    and "extract_text_from_file en blob file_name m = Inr out"
  shows "int (length out) \<le> m"
  using assms truncate_text_bound[of m]
  by (auto simp: extract_text_from_file_def extract_text_from_docx_def Let_def
      split: sum.splits if_splits)

text \<open>
  C2, evaluated. With the default bound of 100000 characters, a PDF of two pages of 50000
  characters each is extracted whole: neither page makes the count of page characters
  exceed the bound, and the separator between them is not counted, so the text returned
  has 100001 characters. The same two texts as paragraphs of a Word file are joined and
  then cut to 100000 characters.
\<close>

theorem pdf_output_exceeds_bound:
  "extract_text_from_file two_page_env [] ''notes.pdf'' 100000 =
     Inr (replicate 50000 (CHR ''a'') @ CHR 0x0A # replicate 50000 (CHR ''b'')) \<and>
   length (replicate 50000 (CHR ''a'') @ CHR 0x0A # replicate 50000 (CHR ''b'')) = 100001 \<and>
   extract_text_from_file two_page_env [] ''notes.docx'' 100000 =
     Inr (replicate 50000 (CHR ''a'') @ CHR 0x0A # replicate 49999 (CHR ''b''))"
  by (simp add: extract_text_from_file_def extract_text_from_pdf_def extract_text_from_docx_def
      truncate_text_def py_slice_to_def two_page_env_def exact_env_def last_dot_part_def
      lower_def lower_char_def strip_def lstrip_def rstrip_def py_isspace_def Let_def)

end
